theory Spec2Isabelle
  imports Complex_Main "HOL-Library.Char_ord" "HOL-Library.List_Lexorder"
begin

section \<open>Date helpers (utils.js)\<close>

text \<open>
  JavaScript strings are modelled as \<^typ>\<open>string\<close>. \<open>String.prototype.split\<close> with a
  one-character separator cuts at every occurrence of it and always yields at least one
  piece; array destructuring reads a missing index as \<open>undefined\<close>, which a template
  literal prints as the text \<open>undefined\<close>.
\<close>

fun split_on :: "char \<Rightarrow> string \<Rightarrow> string list" where
  "split_on c [] = [[]]"
| "split_on c (x # xs) =
     (if x = c then [] # split_on c xs
      else (case split_on c xs of [] \<Rightarrow> [[x]] | p # ps \<Rightarrow> (x # p) # ps))"

definition destructure :: "string list \<Rightarrow> nat \<Rightarrow> string" where
  "destructure ps i = (if i < length ps then ps ! i else ''undefined'')"

definition convertDateToAPI :: "string \<Rightarrow> string" where
  "convertDateToAPI dateString =
     (if dateString = [] then []
      else let ps = split_on CHR ''-'' dateString;
               year = destructure ps 0; month = destructure ps 1; day = destructure ps 2
           in day @ ''-'' @ month @ ''-'' @ year)"

definition convertDateFromAPI :: "string \<Rightarrow> string" where
  "convertDateFromAPI dateString =
     (if dateString = [] then []
      else let ps = split_on CHR ''-'' dateString;
               day = destructure ps 0; month = destructure ps 1; year = destructure ps 2
           in year @ ''-'' @ month @ ''-'' @ day)"

definition isDigit :: "char \<Rightarrow> bool" where
  "isDigit c = (48 \<le> (of_char c :: nat) \<and> (of_char c :: nat) \<le> 57)"

text \<open>The shape \<open>YYYY-MM-DD\<close> of an HTML5 date input value.\<close>

definition wellFormedDate :: "string \<Rightarrow> bool" where
  "wellFormedDate s =
     (length s = 10 \<and> list_all isDigit (take 4 s) \<and> s ! 4 = CHR ''-'' \<and>
      list_all isDigit (take 2 (drop 5 s)) \<and> s ! 7 = CHR ''-'' \<and>
      list_all isDigit (drop 8 s))"

section \<open>Configuration (config.js)\<close>

text \<open>
  The cabin class catalogue \<open>CONFIG.CABIN_CLASSES\<close>, in the key order of the object
  literal (the order \<open>Object.keys\<close> and \<open>Object.values\<close> enumerate). Display texts are
  written in ASCII.
\<close>

record cabinConfig =
  cc_id :: nat
  cc_code :: string
  cc_name :: string
  cc_displayName :: string

definition CABIN_CLASSES :: "(string \<times> cabinConfig) list" where
  "CABIN_CLASSES =
     [(''ECONOMY'', \<lparr>cc_id = 2, cc_code = ''Y1'', cc_name = ''Ekonomi'',
                     cc_displayName = ''Ekonomi Sinifi''\<rparr>),
      (''BUSINESS'', \<lparr>cc_id = 1, cc_code = ''C'', cc_name = ''Business'',
                      cc_displayName = ''Business Sinifi''\<rparr>),
      (''SLEEPER'', \<lparr>cc_id = 3, cc_code = ''SL'', cc_name = ''Yatakli'',
                     cc_displayName = ''Yatakli (Kuset)''\<rparr>),
      (''COUCHETTE'', \<lparr>cc_id = 6, cc_code = ''CT'', cc_name = ''Ortulu Kuset'',
                       cc_displayName = ''Ortulu Kuset''\<rparr>),
      (''LOCA'', \<lparr>cc_id = 11, cc_code = ''L'', cc_name = ''Loca'',
                  cc_displayName = ''Loca (Ozel Kabin)''\<rparr>),
      (''DISABLED'', \<lparr>cc_id = 12, cc_code = ''DSB'', cc_name = ''Tekerlekli Sandalye'',
                      cc_displayName = ''Engelli (Tekerlekli Sandalye)''\<rparr>)]"

definition CHECK_INTERVAL :: int where "CHECK_INTERVAL = 5000"
definition MIN_ANTI_BOT_DELAY :: int where "MIN_ANTI_BOT_DELAY = 3000"
definition MAX_ANTI_BOT_DELAY :: int where "MAX_ANTI_BOT_DELAY = 8000"

section \<open>Time window (utils.js)\<close>

text \<open>
  \<open>formatTime\<close> renders a timestamp through the host's \<open>Date\<close> and locale services; it is
  a parameter of every function that calls it. Relational operators on JavaScript strings
  compare code units lexicographically, a proper prefix being smaller: this is the order of
  \<^typ>\<open>string\<close> here.
\<close>

definition isInTimeRange :: "(int \<Rightarrow> string) \<Rightarrow> int \<Rightarrow> string \<Rightarrow> string \<Rightarrow> bool" where
  "isInTimeRange formatTime trainTime startTime endTime =
     (let trainHourMin = formatTime trainTime
      in trainHourMin \<ge> startTime \<and> trainHourMin \<le> endTime)"

section \<open>Result filter (SearchManager)\<close>

text \<open>The availability response, with the fields the filter reads. A field the code guards
  against being absent is an \<open>option\<close>.\<close>

record segment =
  seg_departureTime :: int
  seg_arrivalTime :: int

record money =
  parsedValue :: "rat option"

record bookingClassAvailability =
  bc_price :: "money option"

record cabinClassRef =
  ref_id :: nat

record classAvail =
  cabinClass :: "cabinClassRef option"
  availabilityCount :: "int option"
  minPrice :: "money option"
  bookingClassAvailabilities :: "bookingClassAvailability list option"

record train =
  train_id :: nat
  commercialName :: "string option"
  train_name :: "string option"
  segments :: "segment list option"
  cabinClassAvailabilities :: "classAvail list option"

record trainAvailability =
  ta_trains :: "train list option"

record trainLeg =
  trainAvailabilities :: "trainAvailability list option"

record response =
  trainLegs :: "trainLeg list option"

text \<open>The price kept for display is either a parsed amount or the raw \<open>minPrice\<close> object.\<close>

datatype price = Amount rat | RawMoney money

record cabin =
  className :: string
  classKey :: string
  availability :: int
  cabin_price :: "price option"
  isSelected :: bool

record trainInfo =
  ti_trainId :: nat
  ti_name :: "string option"
  ti_departureTime :: string
  ti_arrivalTime :: string
  cabinClasses :: "cabin list"

record searchResult =
  found :: bool
  trains :: "trainInfo list"
  totalSeats :: int

text \<open>\<open>Object.values(CONFIG.CABIN_CLASSES).find(config => config.id === id)\<close> and the
  matching \<open>Object.keys(...).find\<close>: the first catalogue entry with that id.\<close>

definition findCabinConfig :: "nat \<Rightarrow> cabinConfig option" where
  "findCabinConfig i = map_option snd (find (\<lambda>(key, config). cc_id config = i) CABIN_CLASSES)"

definition findCabinKey :: "nat \<Rightarrow> string option" where
  "findCabinKey i = map_option fst (find (\<lambda>(key, config). cc_id config = i) CABIN_CLASSES)"

text \<open>A number is truthy unless it is zero; an object is always truthy.\<close>

definition truthyAmount :: "money \<Rightarrow> rat option" where
  "truthyAmount m = (case parsedValue m of None \<Rightarrow> None | Some v \<Rightarrow> if v = 0 then None else Some v)"

definition resolvePrice :: "classAvail \<Rightarrow> price option" where
  "resolvePrice classAvail =
     (case minPrice classAvail of
        Some mp \<Rightarrow>
          (case truthyAmount mp of Some v \<Rightarrow> Some (Amount v) | None \<Rightarrow> Some (RawMoney mp))
      | None \<Rightarrow>
          (case bookingClassAvailabilities classAvail of
             Some (b # _) \<Rightarrow>
               (case bc_price b of
                  Some p \<Rightarrow> map_option Amount (truthyAmount p)
                | None \<Rightarrow> None)
           | _ \<Rightarrow> None))"

text \<open>One iteration of the loop over \<open>train.cabinClassAvailabilities\<close>: \<open>None\<close> is
  \<open>continue\<close>, \<open>Some\<close> is the record pushed.\<close>

definition processClassAvail :: "string list \<Rightarrow> classAvail \<Rightarrow> cabin option" where
  "processClassAvail selectedCabinClasses classAvail =
     (case cabinClass classAvail of
        None \<Rightarrow> None
      | Some cc \<Rightarrow>
          (case findCabinConfig (ref_id cc) of
             None \<Rightarrow> None
           | Some cabinConfig \<Rightarrow>
               (case findCabinKey (ref_id cc) of
                  None \<Rightarrow> None
                | Some cabinKey \<Rightarrow>
                    Some \<lparr>className = cc_displayName cabinConfig,
                          classKey = cabinKey,
                          availability = (case availabilityCount classAvail of
                                            None \<Rightarrow> 0 | Some n \<Rightarrow> n),
                          cabin_price = resolvePrice classAvail,
                          isSelected = (cabinKey \<in> set selectedCabinClasses)\<rparr>)))"

definition orElse :: "string option \<Rightarrow> string option \<Rightarrow> string option" where
  "orElse a b = (case a of Some (c # cs) \<Rightarrow> a | _ \<Rightarrow> b)"

definition processTrainAvailability ::
  "(int \<Rightarrow> string) \<Rightarrow> train \<Rightarrow> string \<Rightarrow> string \<Rightarrow> string list \<Rightarrow> trainInfo option" where
  "processTrainAvailability formatTime train timeStart timeEnd selectedCabinClasses =
     (case segments train of
        None \<Rightarrow> None
      | Some [] \<Rightarrow> None
      | Some (firstSegment # others) \<Rightarrow>
          (let lastSegment = last (firstSegment # others);
               departureTime = seg_departureTime firstSegment
           in if \<not> isInTimeRange formatTime departureTime timeStart timeEnd then None
              else (case cabinClassAvailabilities train of
                      None \<Rightarrow> None
                    | Some avails \<Rightarrow>
                        (let cabins = List.map_filter (processClassAvail selectedCabinClasses) avails
                         in if cabins = [] then None
                            else Some \<lparr>ti_trainId = train_id train,
                                       ti_name = orElse (commercialName train) (train_name train),
                                       ti_departureTime = formatTime (seg_departureTime firstSegment),
                                       ti_arrivalTime = formatTime (seg_arrivalTime lastSegment),
                                       cabinClasses = cabins\<rparr>))))"

definition hasAvailableSeatsInSelectedClasses :: "trainInfo \<Rightarrow> bool" where
  "hasAvailableSeatsInSelectedClasses trainInfo =
     list_ex (\<lambda>cabin. availability cabin > 0 \<and> isSelected cabin) (cabinClasses trainInfo)"

definition selectedSeats :: "trainInfo \<Rightarrow> int" where
  "selectedSeats trainInfo =
     foldl (\<lambda>sum cabin. sum + availability cabin) 0 (filter isSelected (cabinClasses trainInfo))"

text \<open>The body of the \<open>forEach\<close> over the trains of one availability group, acting on the
  three accumulators \<open>foundAvailable\<close>, \<open>availableTrains\<close> and \<open>totalSeats\<close>.\<close>

definition processTrain ::
  "(int \<Rightarrow> string) \<Rightarrow> string \<Rightarrow> string \<Rightarrow> string list \<Rightarrow> searchResult \<Rightarrow> train \<Rightarrow> searchResult" where
  "processTrain formatTime timeStart timeEnd selectedCabinClasses acc train =
     (case processTrainAvailability formatTime train timeStart timeEnd selectedCabinClasses of
        None \<Rightarrow> acc
      | Some trainInfo \<Rightarrow>
          if hasAvailableSeatsInSelectedClasses trainInfo
          then \<lparr>found = True,
                trains = trains acc @ [trainInfo],
                totalSeats = totalSeats acc + selectedSeats trainInfo\<rparr>
          else acc)"

definition processGroup ::
  "(int \<Rightarrow> string) \<Rightarrow> string \<Rightarrow> string \<Rightarrow> string list \<Rightarrow> searchResult \<Rightarrow> trainAvailability
     \<Rightarrow> searchResult" where
  "processGroup formatTime timeStart timeEnd selectedCabinClasses acc trainAvails =
     (case ta_trains trainAvails of
        None \<Rightarrow> acc
      | Some ts \<Rightarrow> foldl (processTrain formatTime timeStart timeEnd selectedCabinClasses) acc ts)"

definition processTrainData ::
  "(int \<Rightarrow> string) \<Rightarrow> response \<Rightarrow> string \<Rightarrow> string \<Rightarrow> string list \<Rightarrow> searchResult" where
  "processTrainData formatTime data timeStart timeEnd selectedCabinClasses =
     (let start = \<lparr>found = False, trains = [], totalSeats = 0\<rparr>
      in case trainLegs data of
           Some (leg # _) \<Rightarrow>
             (case trainAvailabilities leg of
                Some allTrainAvailabilities \<Rightarrow>
                  foldl (processGroup formatTime timeStart timeEnd selectedCabinClasses)
                    start allTrainAvailabilities
              | None \<Rightarrow> start)
         | _ \<Rightarrow> start)"

text \<open>The trains the loops of \<open>processTrainData\<close> visit, in visiting order, and the
  candidates among them: the trains for which \<open>processTrainAvailability\<close> returns a record.\<close>

definition responseTrains :: "response \<Rightarrow> train list" where
  "responseTrains data =
     (case trainLegs data of
        Some (leg # _) \<Rightarrow>
          (case trainAvailabilities leg of
             Some groups \<Rightarrow> concat (map (\<lambda>g. case ta_trains g of None \<Rightarrow> [] | Some ts \<Rightarrow> ts) groups)
           | None \<Rightarrow> [])
      | _ \<Rightarrow> [])"

definition candidates ::
  "(int \<Rightarrow> string) \<Rightarrow> response \<Rightarrow> string \<Rightarrow> string \<Rightarrow> string list \<Rightarrow> trainInfo list" where
  "candidates formatTime data timeStart timeEnd selectedCabinClasses =
     List.map_filter
       (\<lambda>train. processTrainAvailability formatTime train timeStart timeEnd selectedCabinClasses)
       (responseTrains data)"

text \<open>The candidates the filter keeps: those with a free seat in a selected class.\<close>

definition kept ::
  "(int \<Rightarrow> string) \<Rightarrow> string \<Rightarrow> string \<Rightarrow> string list \<Rightarrow> train list \<Rightarrow> trainInfo list" where
  "kept formatTime timeStart timeEnd selectedCabinClasses ts =
     filter hasAvailableSeatsInSelectedClasses
       (List.map_filter
          (\<lambda>train. processTrainAvailability formatTime train timeStart timeEnd selectedCabinClasses)
          ts)"

section \<open>Example inputs for the result filter\<close>

text \<open>A formatter standing for \<open>formatTime\<close> on two timestamps, and responses holding one
  train that leaves at 09:15: with three Economy seats, and with Economy sold out while
  Business has five seats.\<close>

definition exampleFormatTime :: "int \<Rightarrow> string" where
  "exampleFormatTime t = (if t = 1 then ''09:15'' else if t = 2 then ''11:05'' else ''23:59'')"

definition exampleClassAvail :: "nat \<Rightarrow> int \<Rightarrow> classAvail" where
  "exampleClassAvail i n =
     \<lparr>cabinClass = Some \<lparr>ref_id = i\<rparr>, availabilityCount = Some n, minPrice = None,
      bookingClassAvailabilities = None\<rparr>"

definition exampleTrain :: "int \<Rightarrow> classAvail list \<Rightarrow> train" where
  "exampleTrain dep avails =
     \<lparr>train_id = 7, commercialName = Some ''YHT'', train_name = None,
      segments = Some [\<lparr>seg_departureTime = dep, seg_arrivalTime = 2\<rparr>],
      cabinClassAvailabilities = Some avails\<rparr>"

definition exampleResponse :: "train list \<Rightarrow> response" where
  "exampleResponse ts =
     \<lparr>trainLegs = Some [\<lparr>trainAvailabilities = Some [\<lparr>ta_trains = Some ts\<rparr>]\<rparr>]\<rparr>"

definition availableResponse :: response where
  "availableResponse = exampleResponse [exampleTrain 1 [exampleClassAvail 2 3]]"


definition lateResponse :: response where
  "lateResponse = exampleResponse [exampleTrain 3 [exampleClassAvail 2 3]]"

section \<open>Seat locator (seat\_allocation.js)\<close>

text \<open>The seat-map response: one entry per car, each with a template listing the items of
  the car and a list of the seats already allocated.\<close>

record seatItemInfo =
  saleable :: bool
  cabinClassId :: "nat option"
  item_id :: nat

record seatEntry =
  item :: "seatItemInfo option"
  seatNumber :: "string option"

record carRef =
  car_id :: nat
  car_name :: "string option"

record seatTemplate =
  car :: "carRef option"
  tpl_seatMaps :: "seatEntry list option"
  description :: "string option"
  tpl_name :: "string option"

record allocationSeat =
  as_seatNumber :: "string option"

record seatMap =
  trainCarId :: nat
  seatMapTemplate :: "seatTemplate option"
  allocationSeats :: "allocationSeat list option"

record seatMapData =
  smd_seatMaps :: "seatMap list option"

record seatCandidate =
  sc_trainCarId :: nat
  sc_seatNumber :: string
  sc_carName :: "string option"
  sc_wagonNumber :: string
  sc_cabinClassName :: string
  sc_itemId :: nat

text \<open>A string is truthy unless it is absent or empty.\<close>

definition truthyString :: "string option \<Rightarrow> string option" where
  "truthyString s = (case s of Some (c # cs) \<Rightarrow> s | _ \<Rightarrow> None)"

definition orEmpty :: "string option \<Rightarrow> string" where
  "orEmpty s = (case s of Some t \<Rightarrow> t | None \<Rightarrow> [])"

text \<open>
  The pattern \<open>/(\d+)\s*[\.\s]*VAGON/i\<close>. The engine tries the start positions from left to
  right. At a start position the group takes the longest run of digits; a shorter run would
  be followed by a digit, which neither the separators nor \<open>V\<close> match. The separators are
  white space and dots, and again only the longest run of them can be followed by \<open>V\<close>.
  Characters are one byte wide here, so the white space of \<open>\s\<close> is the ASCII white space
  and the no-break space.
\<close>

definition isSpace :: "char \<Rightarrow> bool" where
  "isSpace c = (c = CHR 0x20 \<or> c = CHR 0x09 \<or> c = CHR 0x0A \<or> c = CHR 0x0B \<or> c = CHR 0x0C \<or>
                c = CHR 0x0D \<or> c = CHR 0xA0)"

definition isSeparator :: "char \<Rightarrow> bool" where
  "isSeparator c = (c = CHR ''.'' \<or> isSpace c)"

definition startsWithVAGON :: "string \<Rightarrow> bool" where
  "startsWithVAGON s =
     (case s of
        c1 # c2 # c3 # c4 # c5 # _ \<Rightarrow>
          (c1 = CHR ''V'' \<or> c1 = CHR ''v'') \<and> (c2 = CHR ''A'' \<or> c2 = CHR ''a'') \<and>
          (c3 = CHR ''G'' \<or> c3 = CHR ''g'') \<and> (c4 = CHR ''O'' \<or> c4 = CHR ''o'') \<and>
          (c5 = CHR ''N'' \<or> c5 = CHR ''n'')
      | _ \<Rightarrow> False)"

fun wagonMatch :: "string \<Rightarrow> string option" where
  "wagonMatch [] = None"
| "wagonMatch (c # cs) =
     (if isDigit c \<and> startsWithVAGON (dropWhile isSeparator (dropWhile isDigit (c # cs)))
      then Some (takeWhile isDigit (c # cs))
      else wagonMatch cs)"

definition wagonNumberOf :: "seatTemplate \<Rightarrow> string" where
  "wagonNumberOf template =
     (let wagonText = orEmpty (orElse (orElse (description template) (tpl_name template)) (Some []))
      in case wagonMatch wagonText of Some digits \<Rightarrow> digits | None \<Rightarrow> ''?'')"

text \<open>\<open>selectedCabinClasses.map(key => CONFIG.CABIN_CLASSES[key]?.id).filter(id => id !== undefined)\<close>\<close>

definition selectedCabinClassIds :: "string list \<Rightarrow> nat list" where
  "selectedCabinClassIds selectedCabinClasses =
     List.map_filter (\<lambda>key. map_option cc_id (map_of CABIN_CLASSES key)) selectedCabinClasses"

text \<open>The set of seat numbers built from \<open>seatMap.allocationSeats\<close>.\<close>

definition occupiedSeats :: "seatMap \<Rightarrow> string set" where
  "occupiedSeats seatMap =
     (case allocationSeats seatMap of
        None \<Rightarrow> {}
      | Some allocs \<Rightarrow> set (List.map_filter (\<lambda>alloc. truthyString (as_seatNumber alloc)) allocs))"

definition makeSeat :: "seatMap \<Rightarrow> seatTemplate \<Rightarrow> seatItemInfo \<Rightarrow> string \<Rightarrow> seatCandidate" where
  "makeSeat seatMap template it num =
     \<lparr>sc_trainCarId = trainCarId seatMap,
      sc_seatNumber = num,
      sc_carName = orElse (case car template of None \<Rightarrow> None | Some c \<Rightarrow> car_name c)
                     (tpl_name template),
      sc_wagonNumber = wagonNumberOf template,
      sc_cabinClassName =
        (case cabinClassId it of
           None \<Rightarrow> ''Bilinmeyen''
         | Some i \<Rightarrow> (case findCabinConfig i of
                        None \<Rightarrow> ''Bilinmeyen''
                      | Some config \<Rightarrow> (if cc_displayName config = [] then ''Bilinmeyen''
                                        else cc_displayName config))),
      sc_itemId = item_id it\<rparr>"

text \<open>The inner loop over \<open>template.seatMaps\<close>; each \<open>continue\<close> is the recursive call.\<close>

fun scanSeatItems ::
  "nat list \<Rightarrow> seatMap \<Rightarrow> seatTemplate \<Rightarrow> seatEntry list \<Rightarrow> seatCandidate option" where
  "scanSeatItems ids seatMap template [] = None"
| "scanSeatItems ids seatMap template (seatItem # rest) =
     (case item seatItem of
        None \<Rightarrow> scanSeatItems ids seatMap template rest
      | Some it \<Rightarrow>
          if \<not> saleable it then scanSeatItems ids seatMap template rest
          else if \<not> (case cabinClassId it of None \<Rightarrow> False | Some i \<Rightarrow> i \<in> set ids)
          then scanSeatItems ids seatMap template rest
          else (case truthyString (seatNumber seatItem) of
                  None \<Rightarrow> scanSeatItems ids seatMap template rest
                | Some num \<Rightarrow>
                    if num \<in> occupiedSeats seatMap then scanSeatItems ids seatMap template rest
                    else Some (makeSeat seatMap template it num)))"

text \<open>The outer loop over the seat maps.\<close>

fun scanSeatMaps :: "nat list \<Rightarrow> seatMap list \<Rightarrow> seatCandidate option" where
  "scanSeatMaps ids [] = None"
| "scanSeatMaps ids (seatMap # rest) =
     (case seatMapTemplate seatMap of
        None \<Rightarrow> scanSeatMaps ids rest
      | Some template \<Rightarrow>
          (case tpl_seatMaps template of
             None \<Rightarrow> scanSeatMaps ids rest
           | Some items \<Rightarrow>
               (case scanSeatItems ids seatMap template items of
                  Some seat \<Rightarrow> Some seat
                | None \<Rightarrow> scanSeatMaps ids rest)))"

definition findFirstAvailableSeat :: "seatMap list \<Rightarrow> string list \<Rightarrow> seatCandidate option" where
  "findFirstAvailableSeat seatMaps selectedCabinClasses =
     scanSeatMaps (selectedCabinClassIds selectedCabinClasses) seatMaps"

subsection \<open>The locator's specification\<close>

text \<open>The seats of a response in seat-map order, then template item order, each with its
  car; and the test the two loops apply to a seat, on the ids and the occupied set the code
  computes.\<close>

definition carSeats :: "seatMap \<Rightarrow> (seatMap \<times> seatEntry) list" where
  "carSeats seatMap =
     (case seatMapTemplate seatMap of
        None \<Rightarrow> []
      | Some template \<Rightarrow>
          (case tpl_seatMaps template of None \<Rightarrow> [] | Some items \<Rightarrow> map (Pair seatMap) items))"

definition allSeats :: "seatMap list \<Rightarrow> (seatMap \<times> seatEntry) list" where
  "allSeats seatMaps = concat (map carSeats seatMaps)"

definition eligible :: "nat list \<Rightarrow> seatMap \<times> seatEntry \<Rightarrow> bool" where
  "eligible ids p =
     (case item (snd p) of
        None \<Rightarrow> False
      | Some it \<Rightarrow>
          saleable it \<and>
          (case cabinClassId it of None \<Rightarrow> False | Some i \<Rightarrow> i \<in> set ids) \<and>
          (case seatNumber (snd p) of
             None \<Rightarrow> False
           | Some num \<Rightarrow> num \<noteq> [] \<and> num \<notin> occupiedSeats (fst p)))"

text \<open>
  The same four conditions in the words of the specification, read off the data alone. A
  class id is selected when it is the catalogue id of one of the selected class keys. A
  seat number is held in a car when an entry of the car's allocation list carries it.
\<close>

definition selectedClassId :: "string list \<Rightarrow> nat \<Rightarrow> bool" where
  "selectedClassId selectedCabinClasses i =
     list_ex (\<lambda>key. case map_of CABIN_CLASSES key of
                      None \<Rightarrow> False
                    | Some config \<Rightarrow> cc_id config = i)
       selectedCabinClasses"

definition heldInCar :: "seatMap \<Rightarrow> string \<Rightarrow> bool" where
  "heldInCar seatMap num =
     (case allocationSeats seatMap of
        None \<Rightarrow> False
      | Some allocs \<Rightarrow> list_ex (\<lambda>alloc. as_seatNumber alloc = Some num) allocs)"

definition meetsConditions :: "string list \<Rightarrow> seatMap \<times> seatEntry \<Rightarrow> bool" where
  "meetsConditions selectedCabinClasses p =
     (case item (snd p) of
        None \<Rightarrow> False
      | Some it \<Rightarrow>
          saleable it \<and>
          (case cabinClassId it of
             None \<Rightarrow> False
           | Some i \<Rightarrow> selectedClassId selectedCabinClasses i) \<and>
          (case seatNumber (snd p) of
             None \<Rightarrow> False
           | Some num \<Rightarrow> num \<noteq> [] \<and> \<not> heldInCar (fst p) num))"

text \<open>Whether a returned seat is the seat of a given car and item.\<close>

definition seatOf :: "seatCandidate \<Rightarrow> seatMap \<times> seatEntry \<Rightarrow> bool" where
  "seatOf seat p =
     (sc_trainCarId seat = trainCarId (fst p) \<and>
      seatNumber (snd p) = Some (sc_seatNumber seat) \<and>
      map_option item_id (item (snd p)) = Some (sc_itemId seat))"

section \<open>State, effects and the network\<close>

text \<open>
  The three singletons (\<open>trainAPI\<close>, \<open>seatAllocationManager\<close>, \<open>searchManager\<close>) are one
  state record. What the code does to the outside is a trace of events: network requests,
  the anti-bot sleep, and the calls into the UI module, whose methods \<open>updateStatus\<close>,
  \<open>addLog\<close>, \<open>displayResults\<close>, \<open>setSearchingState\<close>, \<open>stopMusic\<close>, \<open>playAlert\<close>,
  \<open>prepareSuccessAudio\<close>, \<open>showAllocatedSeat\<close> and \<open>hideAllocatedSeat\<close> write to the page, the audio elements and the UI's own countdown
  only. Each event is recorded with the value the in-flight flag \<open>isLoading\<close> has when it
  is issued. Console output is left out. Status and log texts are written in ASCII,
  without their pictographs.
\<close>

record searchParams =
  departureStationId :: nat
  departureStationName :: string
  arrivalStationId :: nat
  arrivalStationName :: string
  departureDate :: string
  sp_timeStart :: string
  sp_timeEnd :: string
  selectedCabinClasses :: "string list"

record allocation =
  al_trainName :: "string option"
  al_trainId :: nat
  al_departureTime :: string
  al_arrivalTime :: string
  al_seatNumber :: string
  al_trainCarId :: nat
  al_carName :: "string option"
  al_wagonNumber :: string
  al_cabinClassName :: string
  al_allocationId :: nat
  al_lockFor :: nat

record seatData =
  sd_trainCarId :: nat
  sd_fromStationId :: nat
  sd_toStationId :: nat
  sd_gender :: string
  sd_seatNumber :: string
  sd_passengerTypeId :: nat
  sd_totalPassengerCount :: nat
  sd_fareFamilyId :: nat

record allocationData =
  ad_trainCarId :: nat
  ad_allocationId :: nat
  ad_seatNumber :: string

record allocationResult =
  allocationId :: "nat option"
  lockFor :: "nat option"

text \<open>The JSON bodies of the four POST requests; constant fields are left out.\<close>

datatype request =
    AvailabilityRequest nat string nat string string
  | SeatMapRequest nat nat nat
  | AllocateRequest seatData
  | DeallocateRequest allocationData

datatype event =
    Sleep int
  | Fetch request
  | UpdateStatus string string
  | AddLog string
  | DisplayResults "trainInfo list"
  | SetSearchingState bool
  | StopMusic
  | PlayAlert
  | ShowAllocatedSeat allocation
  | PrepareSuccessAudio
  | HideAllocatedSeat

record world =
  isLoading :: bool
  allocatedSeat :: "allocation option"
  searchInterval :: "nat option"
  isSearching :: bool
  isFirstRequest :: bool
  timers :: "nat set"
  trace :: "(event \<times> bool) list"

definition emit :: "event \<Rightarrow> world \<Rightarrow> world" where
  "emit e w = w\<lparr>trace := trace w @ [(e, isLoading w)]\<rparr>"

text \<open>The events a call adds to the trace.\<close>

definition newEvents :: "world \<Rightarrow> world \<Rightarrow> (event \<times> bool) list" where
  "newEvents w w' = drop (length (trace w)) (trace w')"

definition isFetch :: "event \<times> bool \<Rightarrow> bool" where
  "isFetch e = (case fst e of Fetch r \<Rightarrow> True | _ \<Rightarrow> False)"

text \<open>
  What \<open>fetch\<close> does: it rejects with an error, or it resolves to a response with a status
  and a body; \<open>response.json()\<close> rejects (left) or yields the parsed body (right).
\<close>

datatype error = Error string

fun errorMessage :: "error \<Rightarrow> string" where
  "errorMessage (Error m) = m"

datatype 'a reply = Rejected string | Responded nat "string + 'a"

definition ok :: "nat \<Rightarrow> bool" where
  "ok status = (200 \<le> status \<and> status \<le> 299)"

subsection \<open>Printing numbers\<close>

definition digitChar :: "nat \<Rightarrow> char" where
  "digitChar d = ''0123456789'' ! d"

fun showNat :: "nat \<Rightarrow> string" where
  "showNat n = (if n < 10 then [digitChar n] else showNat (n div 10) @ [digitChar (n mod 10)])"

declare showNat.simps [simp del]

definition showInt :: "int \<Rightarrow> string" where
  "showInt i = (if i < 0 then CHR ''-'' # showNat (nat (- i)) else showNat (nat i))"

text \<open>A template literal prints an absent value as \<open>undefined\<close>.\<close>

definition showString :: "string option \<Rightarrow> string" where
  "showString s = (case s of None \<Rightarrow> ''undefined'' | Some t \<Rightarrow> t)"

section \<open>Client (api.js)\<close>

text \<open>
  \<open>Math.floor(min + Math.random() * (max - min))\<close>. The arithmetic is on doubles: \<open>fl\<close> is
  the rounding applied to the exact result of each operation, \<open>random\<close> the value drawn.
\<close>

definition getRandomDelay :: "(real \<Rightarrow> real) \<Rightarrow> real \<Rightarrow> int \<Rightarrow> int \<Rightarrow> int" where
  "getRandomDelay fl random min_ms max_ms =
     \<lfloor>fl (of_int min_ms + fl (random * fl (of_int max_ms - of_int min_ms)))\<rfloor>"

text \<open>Rounding a real to the nearest double is monotone and exact on the integers up to
  \<open>2^53\<close>.\<close>

definition rounding :: "(real \<Rightarrow> real) \<Rightarrow> bool" where
  "rounding fl = (mono fl \<and> (\<forall>i::int. \<bar>i\<bar> \<le> 2 ^ 53 \<longrightarrow> fl (of_int i) = of_int i))"

definition httpError :: "nat \<Rightarrow> string \<Rightarrow> error" where
  "httpError status what = Error (''HTTP '' @ showNat status @ '': '' @ what)"

definition checkAvailability ::
  "(real \<Rightarrow> real) \<Rightarrow> real \<Rightarrow> response reply \<Rightarrow> searchParams \<Rightarrow> bool \<Rightarrow> world
     \<Rightarrow> (error + response option) \<times> world" where
  "checkAvailability fl random reply params skipDelay w =
     (if isLoading w then (Inr None, w)
      else
        let w1 = w\<lparr>isLoading := True\<rparr>;
            w2 = (if \<not> skipDelay
                  then emit (Sleep (getRandomDelay fl random MIN_ANTI_BOT_DELAY MAX_ANTI_BOT_DELAY)) w1
                  else w1);
            w3 = emit (Fetch (AvailabilityRequest
                                (departureStationId params) (departureStationName params)
                                (arrivalStationId params) (arrivalStationName params)
                                (departureDate params @ '' 00:00:00''))) w2;
            outcome =
              (case reply of
                 Rejected m \<Rightarrow> Inl (Error m)
               | Responded status body \<Rightarrow>
                   if \<not> ok status then Inl (httpError status ''API request failed'')
                   else (case body of Inl m \<Rightarrow> Inl (Error m) | Inr data \<Rightarrow> Inr (Some data)))
        in (outcome, w3\<lparr>isLoading := False\<rparr>))"

definition checkSeatMap ::
  "seatMapData reply \<Rightarrow> nat \<Rightarrow> nat \<Rightarrow> nat \<Rightarrow> world \<Rightarrow> seatMapData option \<times> world" where
  "checkSeatMap reply trainId fromStationId toStationId w =
     (let w1 = emit (Fetch (SeatMapRequest fromStationId toStationId trainId)) w
      in (case reply of
            Rejected m \<Rightarrow> None
          | Responded status body \<Rightarrow>
              if \<not> ok status then None
              else (case body of Inl m \<Rightarrow> None | Inr data \<Rightarrow> Some data),
          w1))"

definition allocateSeat ::
  "allocationResult reply \<Rightarrow> seatData \<Rightarrow> world \<Rightarrow> allocationResult option \<times> world" where
  "allocateSeat reply seatData w =
     (let requestBody =
            seatData\<lparr>sd_gender := (if sd_gender seatData = [] then ''M'' else sd_gender seatData),
                     sd_totalPassengerCount :=
                       (if sd_totalPassengerCount seatData = 0 then 1
                        else sd_totalPassengerCount seatData)\<rparr>;
          w1 = emit (Fetch (AllocateRequest requestBody)) w
      in (case reply of
            Rejected m \<Rightarrow> None
          | Responded status body \<Rightarrow>
              if \<not> ok status then None
              else (case body of Inl m \<Rightarrow> None | Inr data \<Rightarrow> Some data),
          w1))"

definition deallocateSeat ::
  "unit reply \<Rightarrow> allocationData \<Rightarrow> world \<Rightarrow> (error + unit) \<times> world" where
  "deallocateSeat reply allocationData w =
     (let w1 = emit (Fetch (DeallocateRequest allocationData)) w
      in (case reply of
            Rejected m \<Rightarrow> Inl (Error m)
          | Responded status body \<Rightarrow>
              if \<not> ok status then Inl (httpError status ''Deallocation request failed'')
              else Inr (),
          w1))"

section \<open>Allocation tracker (seat\_allocation.js)\<close>

record opResult =
  success :: bool
  message :: string
  seatInfo :: "allocation option"

definition hasAllocatedSeat :: "world \<Rightarrow> bool" where
  "hasAllocatedSeat w = (allocatedSeat w \<noteq> None)"

definition failure :: "string \<Rightarrow> opResult" where
  "failure m = \<lparr>success = False, message = m, seatInfo = None\<rparr>"

text \<open>A number is truthy unless it is absent or zero.\<close>

definition truthyNat :: "nat option \<Rightarrow> nat option" where
  "truthyNat n = (case n of Some (Suc k) \<Rightarrow> n | _ \<Rightarrow> None)"

text \<open>The two replies are those of the seat-map request and of the select-seat request,
  should the call get that far. The seat map and the allocation come back as \<open>null\<close> on
  any failure, so nothing in the \<open>try\<close> block throws.\<close>

definition checkAndAllocateFirstSeat ::
  "seatMapData reply \<Rightarrow> allocationResult reply \<Rightarrow> trainInfo \<Rightarrow> searchParams \<Rightarrow> world
     \<Rightarrow> opResult \<times> world" where
  "checkAndAllocateFirstSeat seatMapReply allocateReply trainInfo searchParams w =
     (let (seatMapData, w1) =
            checkSeatMap seatMapReply (ti_trainId trainInfo)
              (departureStationId searchParams) (arrivalStationId searchParams) w
      in case (case seatMapData of None \<Rightarrow> None | Some d \<Rightarrow> smd_seatMaps d) of
           None \<Rightarrow> (failure ''Koltuk haritasi alinamadi'', w1)
         | Some seatMaps \<Rightarrow>
             (case findFirstAvailableSeat seatMaps (selectedCabinClasses searchParams) of
                None \<Rightarrow> (failure ''Secilen kategorilerde bos koltuk bulunamadi'', w1)
              | Some seatToAllocate \<Rightarrow>
                  (let (allocationResult, w2) =
                         allocateSeat allocateReply
                           \<lparr>sd_trainCarId = sc_trainCarId seatToAllocate,
                            sd_fromStationId = departureStationId searchParams,
                            sd_toStationId = arrivalStationId searchParams,
                            sd_gender = ''M'',
                            sd_seatNumber = sc_seatNumber seatToAllocate,
                            sd_passengerTypeId = 0,
                            sd_totalPassengerCount = 1,
                            sd_fareFamilyId = 0\<rparr> w1
                   in case (case allocationResult of
                              None \<Rightarrow> None
                            | Some r \<Rightarrow> map_option (Pair r) (truthyNat (allocationId r))) of
                        None \<Rightarrow> (failure ''Koltuk tutma islemi basarisiz oldu'', w2)
                      | Some (r, aid) \<Rightarrow>
                          (let held =
                                 \<lparr>al_trainName = ti_name trainInfo,
                                  al_trainId = ti_trainId trainInfo,
                                  al_departureTime = ti_departureTime trainInfo,
                                  al_arrivalTime = ti_arrivalTime trainInfo,
                                  al_seatNumber = sc_seatNumber seatToAllocate,
                                  al_trainCarId = sc_trainCarId seatToAllocate,
                                  al_carName = sc_carName seatToAllocate,
                                  al_wagonNumber = sc_wagonNumber seatToAllocate,
                                  al_cabinClassName = sc_cabinClassName seatToAllocate,
                                  al_allocationId = aid,
                                  al_lockFor = (case truthyNat (lockFor r) of
                                                  None \<Rightarrow> 10 | Some n \<Rightarrow> n)\<rparr>
                           in (\<lparr>success = True, message = ''Koltuk basariyla tutuldu'',
                                seatInfo = Some held\<rparr>,
                               w2\<lparr>allocatedSeat := Some held\<rparr>)))))"

text \<open>\<open>releaseSeat\<close> is an async function: its outcome is a thrown error (left) or a
  returned result (right).\<close>

definition releaseSeat :: "unit reply \<Rightarrow> world \<Rightarrow> (error + opResult) \<times> world" where
  "releaseSeat reply w =
     (case allocatedSeat w of
        None \<Rightarrow> (Inr (failure ''Tutulmus koltuk bulunamadi''), w)
      | Some held \<Rightarrow>
          (let (outcome, w1) =
                 deallocateSeat reply
                   \<lparr>ad_trainCarId = al_trainCarId held,
                    ad_allocationId = al_allocationId held,
                    ad_seatNumber = al_seatNumber held\<rparr> w
           in case outcome of
                Inr u \<Rightarrow>
                  (Inr \<lparr>success = True, message = ''Koltuk basariyla serbest birakildi'',
                        seatInfo = None\<rparr>,
                   w1\<lparr>allocatedSeat := None\<rparr>)
              | Inl e \<Rightarrow> (Inr (failure (''Hata: '' @ errorMessage e)), w1)))"

definition clearAllocation :: "world \<Rightarrow> world" where
  "clearAllocation w = w\<lparr>allocatedSeat := None\<rparr>"

section \<open>Search loop controller (SearchManager)\<close>

text \<open>\<open>timers\<close> is the set of armed interval timers; \<open>clearInterval\<close> disarms one. A timer
  handle is a number, truthy unless zero (\<open>setInterval\<close> returns positive handles).\<close>

definition stopSearch :: "world \<Rightarrow> world" where
  "stopSearch w =
     (if \<not> isSearching w then w
      else
        let w1 = emit (SetSearchingState False) (w\<lparr>isSearching := False\<rparr>);
            w2 = (case truthyNat (searchInterval w1) of
                    Some h \<Rightarrow> w1\<lparr>timers := timers w1 - {h}, searchInterval := None\<rparr>
                  | None \<Rightarrow> w1);
            w3 = emit StopMusic w2
        in emit (UpdateStatus ''Arama durduruldu.'' ''waiting'') w3)"

text \<open>
  \<open>performCheck\<close> is an async function: a call runs at once up to its first \<open>await\<close> and
  the rest runs later. \<open>performCheckBegin\<close> is that first part. \<open>params\<close> is what
  \<open>uiManager.getSearchParams()\<close> returns, \<open>null\<close> for an invalid form. With valid
  parameters the call enters \<open>checkAvailability\<close>, which sets the in-flight flag and is
  suspended at its sleep or, when the delay is skipped, at its request.
\<close>

definition performCheckBegin ::
  "(real \<Rightarrow> real) \<Rightarrow> real \<Rightarrow> searchParams option \<Rightarrow> world \<Rightarrow> world" where
  "performCheckBegin fl random params w =
     (if isLoading w then w
      else
        case params of
          None \<Rightarrow> stopSearch w
        | Some p \<Rightarrow>
            (let w1 = emit (UpdateStatus ''Kontrol ediliyor...'' ''searching'') w;
                 skipDelay = isFirstRequest w1;
                 w2 = w1\<lparr>isFirstRequest := False\<rparr>;
                 w3 = w2\<lparr>isLoading := True\<rparr>
             in if \<not> skipDelay
                then emit (Sleep (getRandomDelay fl random MIN_ANTI_BOT_DELAY MAX_ANTI_BOT_DELAY)) w3
                else emit (Fetch (AvailabilityRequest
                                    (departureStationId p) (departureStationName p)
                                    (arrivalStationId p) (arrivalStationName p)
                                    (departureDate p @ '' 00:00:00''))) w3))"

text \<open>
  \<open>setInterval\<close> arms a timer and returns its handle. The host chooses the handle; here it
  is the argument \<open>handle\<close>. \<open>startSearch\<close> calls \<open>performCheck\<close> first and stores the
  handle of the new timer afterwards.
\<close>

definition startSearch ::
  "(real \<Rightarrow> real) \<Rightarrow> real \<Rightarrow> searchParams option \<Rightarrow> nat \<Rightarrow> world \<Rightarrow> world" where
  "startSearch fl random params handle w =
     (if isSearching w then w
      else
        let w1 = w\<lparr>isSearching := True, isFirstRequest := True\<rparr>;
            w2 = emit (SetSearchingState True) w1;
            w3 = emit PrepareSuccessAudio w2;
            w4 = emit HideAllocatedSeat w3;
            w5 = clearAllocation w4;
            w6 = emit (UpdateStatus ''Arama baslatildi...'' ''searching'') w5;
            w7 = performCheckBegin fl random params w6
        in w7\<lparr>searchInterval := Some handle, timers := insert handle (timers w7)\<rparr>)"

text \<open>The sum \<open>handleTicketsFound\<close> recomputes: the inner and the outer \<open>forEach\<close>.\<close>

definition addCabinSeats :: "int \<Rightarrow> cabin \<Rightarrow> int" where
  "addCabinSeats n cabin =
     (if isSelected cabin \<and> availability cabin > 0 then n + availability cabin else n)"

definition actualAvailableSeats :: "trainInfo list \<Rightarrow> int" where
  "actualAvailableSeats ts =
     foldl (\<lambda>n train. foldl addCabinSeats n (cabinClasses train)) 0 ts"

text \<open>\<open>now\<close> is the text \<open>getCurrentTime()\<close> returns; the two replies are passed on to the
  allocation attempt. The two branches of \<open>if (actualAvailableSeats > 0)\<close> come first.\<close>

definition ticketsAvailable ::
  "string \<Rightarrow> seatMapData reply \<Rightarrow> allocationResult reply \<Rightarrow> int \<Rightarrow> searchResult \<Rightarrow> searchParams
     \<Rightarrow> world \<Rightarrow> world" where
  "ticketsAvailable now seatMapReply allocateReply actual result params w =
     (let w1 = emit (UpdateStatus (''YER BULUNDU! '' @ showInt actual @ '' yer mevcut'') ''found'') w;
          w2 = emit (AddLog (''KOLTUK BULUNDU: '' @ showInt actual @ '' yer ('' @ now @ '')'')) w1;
          w3 = stopSearch w2;
          w4 = emit PlayAlert w3
      in if \<not> hasAllocatedSeat w4 then
           (case trains result of
              [] \<Rightarrow> w4
            | targetTrain # _ \<Rightarrow>
                (let w5 = emit (AddLog (''Otomatik koltuk tutuluyor... (''
                                         @ showString (ti_name targetTrain) @ '')'')) w4;
                     (allocResult, w6) =
                       checkAndAllocateFirstSeat seatMapReply allocateReply targetTrain params w5
                 in if success allocResult then
                      (let w7 = emit (AddLog (''BASARILI: '' @ message allocResult)) w6
                       in case seatInfo allocResult of
                            None \<Rightarrow> w7
                          | Some held \<Rightarrow> emit (ShowAllocatedSeat held) w7)
                    else emit (AddLog (''Koltuk tutulamadi: '' @ message allocResult)) w6))
         else emit (AddLog ''Zaten tutulmus bir koltuk var.'') w4)"

definition ticketsSoldOut :: "string \<Rightarrow> searchResult \<Rightarrow> world \<Rightarrow> world" where
  "ticketsSoldOut now result w =
     (let w1 = emit (UpdateStatus
                       (showNat (length (trains result))
                        @ '' sefer bulundu ancak sectiginiz siniflarda koltuk TUKENDI. Arama devam ediyor...'')
                       ''searching'') w
      in emit (AddLog (showNat (length (trains result))
                       @ '' sefer var ama secili siniflarda tukendi ('' @ now @ '')'')) w1)"

definition handleTicketsFound ::
  "string \<Rightarrow> seatMapData reply \<Rightarrow> allocationResult reply \<Rightarrow> searchResult \<Rightarrow> searchParams \<Rightarrow> world
     \<Rightarrow> world" where
  "handleTicketsFound now seatMapReply allocateReply result params w =
     (let actual = actualAvailableSeats (trains result);
          w' = (if actual > 0
                then ticketsAvailable now seatMapReply allocateReply actual result params w
                else ticketsSoldOut now result w)
      in emit (DisplayResults (trains result)) w')"

section \<open>Example states and replies\<close>

definition exampleParams :: searchParams where
  "exampleParams =
     \<lparr>departureStationId = 796, departureStationName = ''KONYA'',
      arrivalStationId = 98, arrivalStationName = ''ANKARA GAR'',
      departureDate = ''05-03-2025'', sp_timeStart = ''08:00'', sp_timeEnd = ''12:00'',
      selectedCabinClasses = [''ECONOMY'']\<rparr>"

definition exampleTrainInfo :: trainInfo where
  "exampleTrainInfo =
     \<lparr>ti_trainId = 7, ti_name = Some ''YHT'', ti_departureTime = ''09:15'',
      ti_arrivalTime = ''11:05'',
      cabinClasses = [\<lparr>className = ''Ekonomi Sinifi'', classKey = ''ECONOMY'', availability = 3,
                       cabin_price = None, isSelected = True\<rparr>]\<rparr>"

definition exampleResult :: searchResult where
  "exampleResult = \<lparr>found = True, trains = [exampleTrainInfo], totalSeats = 3\<rparr>"

definition exampleSeat :: "string \<Rightarrow> nat \<Rightarrow> bool \<Rightarrow> seatEntry" where
  "exampleSeat num cls sale =
     \<lparr>item = Some \<lparr>saleable = sale, cabinClassId = Some cls, item_id = 40\<rparr>,
      seatNumber = Some num\<rparr>"

definition exampleCar :: "seatEntry list \<Rightarrow> string list \<Rightarrow> seatMap" where
  "exampleCar items taken =
     \<lparr>trainCarId = 31,
      seatMapTemplate = Some \<lparr>car = None, tpl_seatMaps = Some items,
                               description = Some ''YHT CAF 2. VAGON EKONOMI'',
                               tpl_name = Some ''CAF''\<rparr>,
      allocationSeats = Some (map (\<lambda>n. \<lparr>as_seatNumber = Some n\<rparr>) taken)\<rparr>"

definition exampleSeatMaps :: "seatMap list" where
  "exampleSeatMaps =
     [exampleCar [exampleSeat ''1A'' 1 True, exampleSeat ''WC'' 2 False, exampleSeat ''5A'' 2 True,
                  exampleSeat ''5B'' 2 True, exampleSeat ''5C'' 2 True] [''5A'']]"

definition exampleAllocation :: allocation where
  "exampleAllocation =
     \<lparr>al_trainName = Some ''YHT'', al_trainId = 7, al_departureTime = ''09:15'',
      al_arrivalTime = ''11:05'', al_seatNumber = ''2D'', al_trainCarId = 30,
      al_carName = Some ''CAF'', al_wagonNumber = ''1'', al_cabinClassName = ''Ekonomi Sinifi'',
      al_allocationId = 55, al_lockFor = 10\<rparr>"

definition idleWorld :: world where
  "idleWorld =
     \<lparr>isLoading = False, allocatedSeat = None, searchInterval = None, isSearching = False,
      isFirstRequest = True, timers = {}, trace = []\<rparr>"

definition searchingWorld :: world where
  "searchingWorld = idleWorld\<lparr>isSearching := True, searchInterval := Some 4, timers := {4}\<rparr>"

definition heldWorld :: world where
  "heldWorld = searchingWorld\<lparr>allocatedSeat := Some exampleAllocation\<rparr>"

definition busyWorld :: world where
  "busyWorld = searchingWorld\<lparr>isLoading := True\<rparr>"

definition seatMapOk :: "seatMapData reply" where
  "seatMapOk = Responded 200 (Inr \<lparr>smd_seatMaps = Some exampleSeatMaps\<rparr>)"

definition allocateOk :: "allocationResult reply" where
  "allocateOk = Responded 200 (Inr \<lparr>allocationId = Some 99, lockFor = None\<rparr>)"

text \<open>Start pressed with an invalid form, the host handing out timer 1; then Start pressed
  again with a valid form, the host handing out timer 2.\<close>

definition invalidStartWorld :: world where
  "invalidStartWorld = startSearch (\<lambda>x. x) (1 / 2) None 1 idleWorld"

definition restartedWorld :: world where
  "restartedWorld = startSearch (\<lambda>x. x) (1 / 2) (Some exampleParams) 2 invalidStartWorld"

section \<open>Result filter\<close>

lemma processTrainAvailability_Some:
  assumes "processTrainAvailability formatTime train timeStart timeEnd sel = Some c"
  shows "\<exists>seg rest. segments train = Some (seg # rest) \<and>
           ti_departureTime c = formatTime (seg_departureTime seg) \<and>
           timeStart \<le> ti_departureTime c \<and> ti_departureTime c \<le> timeEnd \<and>
           cabinClasses c \<noteq> []"
  using assms
  by (auto simp: processTrainAvailability_def isInTimeRange_def Let_def
           split: option.splits list.splits if_splits)

lemma processTrainAvailability_outside:
  assumes "segments train = Some (seg # rest)"
    and "\<not> (timeStart \<le> formatTime (seg_departureTime seg) \<and>
             formatTime (seg_departureTime seg) \<le> timeEnd)"
  shows "processTrainAvailability formatTime train timeStart timeEnd sel = None"
  using assms
  by (auto simp: processTrainAvailability_def isInTimeRange_def Let_def)

lemma kept_Nil: "kept f a b sel [] = []"
  by (simp add: kept_def map_filter_simps)

lemma kept_Cons:
  "kept f a b sel (t # ts) =
     (case processTrainAvailability f t a b sel of
        None \<Rightarrow> kept f a b sel ts
      | Some c \<Rightarrow> if hasAvailableSeatsInSelectedClasses c then c # kept f a b sel ts
                  else kept f a b sel ts)"
  by (simp add: kept_def map_filter_simps split: option.splits)

lemma foldl_processTrain:
  "foldl (processTrain f a b sel) acc ts =
     \<lparr>found = (found acc \<or> kept f a b sel ts \<noteq> []),
      trains = trains acc @ kept f a b sel ts,
      totalSeats = totalSeats acc + sum_list (map selectedSeats (kept f a b sel ts))\<rparr>"
proof (induction ts arbitrary: acc)
  case Nil
  show ?case by (simp add: kept_Nil)
next
  case (Cons t ts)
  have "foldl (processTrain f a b sel) acc (t # ts) =
          foldl (processTrain f a b sel) (processTrain f a b sel acc t) ts"
    by simp
  also have "\<dots> =
     \<lparr>found = (found (processTrain f a b sel acc t) \<or> kept f a b sel ts \<noteq> []),
      trains = trains (processTrain f a b sel acc t) @ kept f a b sel ts,
      totalSeats = totalSeats (processTrain f a b sel acc t)
                     + sum_list (map selectedSeats (kept f a b sel ts))\<rparr>"
    by (rule Cons.IH)
  also have "\<dots> =
     \<lparr>found = (found acc \<or> kept f a b sel (t # ts) \<noteq> []),
      trains = trains acc @ kept f a b sel (t # ts),
      totalSeats = totalSeats acc + sum_list (map selectedSeats (kept f a b sel (t # ts)))\<rparr>"
    by (simp add: kept_Cons processTrain_def split: option.splits)
  finally show ?case .
qed

lemma foldl_processGroup:
  "foldl (processGroup f a b sel) acc groups =
     foldl (processTrain f a b sel) acc
       (concat (map (\<lambda>g. case ta_trains g of None \<Rightarrow> [] | Some ts \<Rightarrow> ts) groups))"
  by (induction groups arbitrary: acc) (simp_all add: processGroup_def split: option.splits)

lemma processTrainData_fold:
  "processTrainData f data a b sel =
     foldl (processTrain f a b sel) \<lparr>found = False, trains = [], totalSeats = 0\<rparr> (responseTrains data)"
  by (simp add: processTrainData_def responseTrains_def foldl_processGroup
           split: option.splits list.splits)

lemma processTrainData_kept:
  "processTrainData f data a b sel =
     \<lparr>found = (kept f a b sel (responseTrains data) \<noteq> []),
      trains = kept f a b sel (responseTrains data),
      totalSeats = sum_list (map selectedSeats (kept f a b sel (responseTrains data)))\<rparr>"
  by (simp add: processTrainData_fold foldl_processTrain)

lemma kept_candidates:
  "kept f a b sel (responseTrains data) =
     filter hasAvailableSeatsInSelectedClasses (candidates f data a b sel)"
  by (simp add: kept_def candidates_def)

lemma hasAvailable_iff:
  "hasAvailableSeatsInSelectedClasses t \<longleftrightarrow>
     (\<exists>c\<in>set (cabinClasses t). isSelected c \<and> availability c > 0)"
  by (auto simp: hasAvailableSeatsInSelectedClasses_def list_ex_iff)

lemma candidates_Some:
  assumes "c \<in> set (candidates f data a b sel)"
  shows "\<exists>train\<in>set (responseTrains data). processTrainAvailability f train a b sel = Some c"
  using assms by (auto simp: candidates_def map_filter_def)

text \<open>
  C6. Every train the filter emits carries the formatted departure time of the first segment
  of a train of the response, and that time lies between \<open>timeStart\<close> and \<open>timeEnd\<close>, both
  bounds included, in the lexicographic order of strings; a train whose first segment
  departs outside the window is rejected. This holds for every window, so in particular
  for those with \<open>timeStart \<le> timeEnd\<close>.
\<close>

theorem processTrainData_time_window:
  "(\<forall>c\<in>set (trains (processTrainData formatTime data timeStart timeEnd sel)).
      timeStart \<le> ti_departureTime c \<and> ti_departureTime c \<le> timeEnd \<and>
      (\<exists>train\<in>set (responseTrains data). \<exists>seg rest.
          segments train = Some (seg # rest) \<and>
          ti_departureTime c = formatTime (seg_departureTime seg))) \<and>
   (\<forall>seg rest.
      segments train = Some (seg # rest) \<and>
      \<not> (timeStart \<le> formatTime (seg_departureTime seg) \<and>
         formatTime (seg_departureTime seg) \<le> timeEnd)
      \<longrightarrow> processTrainAvailability formatTime train timeStart timeEnd sel = None)"
proof (intro conjI ballI allI impI)
  fix c
  assume "c \<in> set (trains (processTrainData formatTime data timeStart timeEnd sel))"
  then have "c \<in> set (candidates formatTime data timeStart timeEnd sel)"
    by (simp add: processTrainData_kept kept_candidates)
  from candidates_Some [OF this] obtain train where
    t: "train \<in> set (responseTrains data)"
       "processTrainAvailability formatTime train timeStart timeEnd sel = Some c" by blast
  from processTrainAvailability_Some [OF t(2)] obtain seg rest where
    s: "segments train = Some (seg # rest)"
       "ti_departureTime c = formatTime (seg_departureTime seg)"
       "timeStart \<le> ti_departureTime c" "ti_departureTime c \<le> timeEnd" by blast
  show "timeStart \<le> ti_departureTime c" by (rule s(3))
  show "ti_departureTime c \<le> timeEnd" by (rule s(4))
  show "\<exists>train\<in>set (responseTrains data). \<exists>seg rest.
          segments train = Some (seg # rest) \<and>
          ti_departureTime c = formatTime (seg_departureTime seg)"
    using t(1) s(1,2) by blast
next
  fix seg rest
  assume "segments train = Some (seg # rest) \<and>
      \<not> (timeStart \<le> formatTime (seg_departureTime seg) \<and>
         formatTime (seg_departureTime seg) \<le> timeEnd)"
  then show "processTrainAvailability formatTime train timeStart timeEnd sel = None"
    using processTrainAvailability_outside by blast
qed

lemma availableResponse_result:
  "processTrainData exampleFormatTime availableResponse ''08:00'' ''12:00'' [''ECONOMY''] =
     \<lparr>found = True, trains = [exampleTrainInfo], totalSeats = 3\<rparr>"
  by code_simp

lemma lateTrain_segments:
  "segments (exampleTrain 3 [exampleClassAvail 2 3]) =
     Some (\<lparr>seg_departureTime = 3, seg_arrivalTime = 2\<rparr> # [])"
  by (simp add: exampleTrain_def)

theorem processTrainData_time_window_witness:
  "exampleTrainInfo \<in> set (trains (processTrainData exampleFormatTime availableResponse
                                     ''08:00'' ''12:00'' [''ECONOMY''])) \<and>
   ''08:00'' \<le> ti_departureTime exampleTrainInfo \<and>
   ti_departureTime exampleTrainInfo \<le> ''12:00'' \<and>
   \<not> (''08:00'' \<le> exampleFormatTime 3 \<and> exampleFormatTime 3 \<le> ''12:00'') \<and>
   processTrainAvailability exampleFormatTime (exampleTrain 3 [exampleClassAvail 2 3])
     ''08:00'' ''12:00'' [''ECONOMY''] = None"
proof -
  have m: "exampleTrainInfo \<in> set (trains (processTrainData exampleFormatTime availableResponse
                                     ''08:00'' ''12:00'' [''ECONOMY'']))"
    by (simp add: availableResponse_result)
  have out: "\<not> (''08:00'' \<le> exampleFormatTime (seg_departureTime \<lparr>seg_departureTime = 3, seg_arrivalTime = 2\<rparr>)
        \<and> exampleFormatTime (seg_departureTime \<lparr>seg_departureTime = 3, seg_arrivalTime = 2\<rparr>) \<le> ''12:00'')"
    by (simp add: exampleFormatTime_def)
  note inst = processTrainData_time_window [of exampleFormatTime availableResponse
      "''08:00''" "''12:00''" "[''ECONOMY'']" "exampleTrain 3 [exampleClassAvail 2 3]"]
  from inst m have "''08:00'' \<le> ti_departureTime exampleTrainInfo \<and>
      ti_departureTime exampleTrainInfo \<le> ''12:00''" by blast
  moreover from inst lateTrain_segments out
  have "processTrainAvailability exampleFormatTime (exampleTrain 3 [exampleClassAvail 2 3])
     ''08:00'' ''12:00'' [''ECONOMY''] = None" by blast
  moreover have "\<not> (''08:00'' \<le> exampleFormatTime 3 \<and> exampleFormatTime 3 \<le> ''12:00'')"
    using out by simp
  ultimately show ?thesis using m by blast
qed





lemma cabinSeats_mono: "n \<le> foldl addCabinSeats n cs"
proof (induction cs arbitrary: n)
  case Nil
  show ?case by simp
next
  case (Cons c cs)
  have "n \<le> addCabinSeats n c" by (simp add: addCabinSeats_def)
  also have "\<dots> \<le> foldl addCabinSeats (addCabinSeats n c) cs" by (rule Cons.IH)
  finally show ?case by simp
qed

lemma cabinSeats_strict:
  assumes "\<exists>c\<in>set cs. isSelected c \<and> availability c > 0"
  shows "n < foldl addCabinSeats n cs"
  using assms
proof (induction cs arbitrary: n)
  case Nil
  then show ?case by simp
next
  case (Cons c cs)
  show ?case
  proof (cases "isSelected c \<and> availability c > 0")
    case True
    then have "n < addCabinSeats n c" by (simp add: addCabinSeats_def)
    also have "\<dots> \<le> foldl addCabinSeats (addCabinSeats n c) cs" by (rule cabinSeats_mono)
    finally show ?thesis by simp
  next
    case False
    with Cons.prems have "\<exists>c\<in>set cs. isSelected c \<and> availability c > 0" by auto
    from Cons.IH [OF this] have "addCabinSeats n c < foldl addCabinSeats (addCabinSeats n c) cs" .
    moreover have "n \<le> addCabinSeats n c" by (simp add: addCabinSeats_def)
    ultimately show ?thesis by simp
  qed
qed

lemma trainSeats_mono:
  "n \<le> foldl (\<lambda>n train. foldl addCabinSeats n (cabinClasses train)) n ts"
proof (induction ts arbitrary: n)
  case Nil
  show ?case by simp
next
  case (Cons t ts)
  have "n \<le> foldl addCabinSeats n (cabinClasses t)" by (rule cabinSeats_mono)
  also have "\<dots> \<le> foldl (\<lambda>n train. foldl addCabinSeats n (cabinClasses train))
                      (foldl addCabinSeats n (cabinClasses t)) ts" by (rule Cons.IH)
  finally show ?case by simp
qed

lemma actualAvailableSeats_pos:
  assumes "ts \<noteq> []" and "\<forall>t\<in>set ts. hasAvailableSeatsInSelectedClasses t"
  shows "actualAvailableSeats ts > 0"
proof -
  from assms obtain t rest where ts: "ts = t # rest" by (cases ts) auto
  with assms(2) have "\<exists>c\<in>set (cabinClasses t). isSelected c \<and> availability c > 0"
    by (simp add: hasAvailable_iff)
  then have "0 < foldl addCabinSeats 0 (cabinClasses t)" by (rule cabinSeats_strict)
  also have "\<dots> \<le> foldl (\<lambda>n train. foldl addCabinSeats n (cabinClasses train))
                      (foldl addCabinSeats 0 (cabinClasses t)) rest" by (rule trainSeats_mono)
  finally show ?thesis by (simp add: actualAvailableSeats_def ts)
qed

text \<open>
  C10. Every train in the list \<open>processTrainData\<close> returns has a selected cabin class with
  availability above zero, and \<open>found\<close> is true exactly when the list is not empty. So when
  \<open>found\<close> is true the sum \<open>handleTicketsFound\<close> recomputes is positive and it runs the
  branch for available tickets, never the sold-out branch.
\<close>

theorem found_has_seats:
  "(\<forall>t\<in>set (trains (processTrainData formatTime data timeStart timeEnd sel)).
      \<exists>cab\<in>set (cabinClasses t). isSelected cab \<and> availability cab > 0) \<and>
   (found (processTrainData formatTime data timeStart timeEnd sel) \<longleftrightarrow>
      trains (processTrainData formatTime data timeStart timeEnd sel) \<noteq> []) \<and>
   (found (processTrainData formatTime data timeStart timeEnd sel) \<longrightarrow>
      actualAvailableSeats (trains (processTrainData formatTime data timeStart timeEnd sel)) > 0 \<and>
      handleTicketsFound now seatMapReply allocateReply
          (processTrainData formatTime data timeStart timeEnd sel) params w =
        emit (DisplayResults (trains (processTrainData formatTime data timeStart timeEnd sel)))
          (ticketsAvailable now seatMapReply allocateReply
             (actualAvailableSeats (trains (processTrainData formatTime data timeStart timeEnd sel)))
             (processTrainData formatTime data timeStart timeEnd sel) params w))"
proof -
  let ?r = "processTrainData formatTime data timeStart timeEnd sel"
  have all: "\<forall>t\<in>set (trains ?r). hasAvailableSeatsInSelectedClasses t"
    by (simp add: processTrainData_kept kept_def)
  then have a: "\<forall>t\<in>set (trains ?r). \<exists>cab\<in>set (cabinClasses t). isSelected cab \<and> availability cab > 0"
    by (simp add: hasAvailable_iff)
  have b: "found ?r \<longleftrightarrow> trains ?r \<noteq> []"
    by (simp add: processTrainData_kept)
  have c: "actualAvailableSeats (trains ?r) > 0" if "found ?r"
    using that b all by (simp add: actualAvailableSeats_pos)
  have d: "handleTicketsFound now seatMapReply allocateReply ?r params w =
        emit (DisplayResults (trains ?r))
          (ticketsAvailable now seatMapReply allocateReply (actualAvailableSeats (trains ?r))
             ?r params w)" if "found ?r"
    using c [OF that] by (simp add: handleTicketsFound_def Let_def)
  show ?thesis using a b c d by blast
qed

theorem found_has_seats_witness:
  "exampleTrainInfo \<in> set (trains (processTrainData exampleFormatTime availableResponse
                                     ''08:00'' ''12:00'' [''ECONOMY''])) \<and>
   (\<exists>cab\<in>set (cabinClasses exampleTrainInfo). isSelected cab \<and> availability cab > 0) \<and>
   found (processTrainData exampleFormatTime availableResponse ''08:00'' ''12:00'' [''ECONOMY'']) \<and>
   actualAvailableSeats (trains (processTrainData exampleFormatTime availableResponse
                                   ''08:00'' ''12:00'' [''ECONOMY''])) > 0"
proof -
  have m: "exampleTrainInfo \<in> set (trains (processTrainData exampleFormatTime availableResponse
                                     ''08:00'' ''12:00'' [''ECONOMY'']))"
    by (simp add: availableResponse_result)
  have f: "found (processTrainData exampleFormatTime availableResponse ''08:00'' ''12:00''
                    [''ECONOMY''])"
    by (simp add: availableResponse_result)
  note inst = found_has_seats [of exampleFormatTime availableResponse "''08:00''" "''12:00''"
      "[''ECONOMY'']" "''10:00:00''" seatMapOk allocateOk exampleParams searchingWorld]
  from inst m have "\<exists>cab\<in>set (cabinClasses exampleTrainInfo). isSelected cab \<and> availability cab > 0"
    by blast
  moreover from inst f
  have "actualAvailableSeats (trains (processTrainData exampleFormatTime availableResponse
                                   ''08:00'' ''12:00'' [''ECONOMY''])) > 0" by blast
  ultimately show ?thesis using m f by blast
qed

section \<open>Seat locator\<close>

lemma scanSeatItems_None:
  "scanSeatItems ids sm tpl items = None \<longleftrightarrow> (\<forall>e\<in>set items. \<not> eligible ids (sm, e))"
  by (induction items)
     (auto simp: eligible_def truthyString_def split: option.splits list.splits)

lemma scanSeatItems_Some:
  assumes "scanSeatItems ids sm tpl items = Some s"
  shows "\<exists>pre e post. items = pre @ e # post \<and> (\<forall>q\<in>set pre. \<not> eligible ids (sm, q)) \<and>
           eligible ids (sm, e) \<and> seatOf s (sm, e)"
  using assms
proof (induction items)
  case Nil
  then show ?case by simp
next
  case (Cons x xs)
  show ?case
  proof (cases "eligible ids (sm, x)")
    case True
    then obtain it num where it: "item x = Some it" and num: "seatNumber x = Some num"
      by (auto simp: eligible_def split: option.splits)
    with True Cons.prems have "s = makeSeat sm tpl it num"
      by (auto simp: eligible_def truthyString_def split: option.splits list.splits)
    then have "seatOf s (sm, x)"
      using it num by (simp add: seatOf_def makeSeat_def)
    with True have "x # xs = [] @ x # xs \<and> (\<forall>q\<in>set []. \<not> eligible ids (sm, q)) \<and>
           eligible ids (sm, x) \<and> seatOf s (sm, x)" by simp
    then show ?thesis by blast
  next
    case False
    with Cons.prems have "scanSeatItems ids sm tpl xs = Some s"
      by (auto simp: eligible_def truthyString_def split: option.splits list.splits if_splits)
    from Cons.IH [OF this] obtain pre e post where
      d: "xs = pre @ e # post" "\<forall>q\<in>set pre. \<not> eligible ids (sm, q)"
         "eligible ids (sm, e)" "seatOf s (sm, e)" by blast
    with False have "x # xs = (x # pre) @ e # post \<and> (\<forall>q\<in>set (x # pre). \<not> eligible ids (sm, q)) \<and>
           eligible ids (sm, e) \<and> seatOf s (sm, e)" by simp
    then show ?thesis by blast
  qed
qed

lemma allSeats_Cons: "allSeats (c # cs) = carSeats c @ allSeats cs"
  by (simp add: allSeats_def)

lemma scanSeatMaps_step:
  "scanSeatMaps ids (c # cs) =
     (case seatMapTemplate c of
        None \<Rightarrow> scanSeatMaps ids cs
      | Some template \<Rightarrow>
          (case tpl_seatMaps template of
             None \<Rightarrow> scanSeatMaps ids cs
           | Some items \<Rightarrow>
               (case scanSeatItems ids c template items of
                  Some seat \<Rightarrow> Some seat
                | None \<Rightarrow> scanSeatMaps ids cs)))"
  by simp

lemma scanSeatMaps_None:
  "scanSeatMaps ids cars = None \<longleftrightarrow> (\<forall>p\<in>set (allSeats cars). \<not> eligible ids p)"
proof (induction cars)
  case Nil
  show ?case by (simp add: allSeats_def)
next
  case (Cons c cs)
  show ?case
  proof (cases "seatMapTemplate c")
    case None
    then show ?thesis using Cons.IH by (simp add: allSeats_Cons carSeats_def)
  next
    case (Some template)
    show ?thesis
    proof (cases "tpl_seatMaps template")
      case None
      then show ?thesis using Some Cons.IH by (simp add: allSeats_Cons carSeats_def)
    next
      case (Some items)
      have cs: "carSeats c = map (Pair c) items"
        using \<open>seatMapTemplate c = Some template\<close> Some by (simp add: carSeats_def)
      show ?thesis
      proof (cases "scanSeatItems ids c template items")
        case None
        then have "\<forall>e\<in>set items. \<not> eligible ids (c, e)" by (simp add: scanSeatItems_None)
        then show ?thesis
          using \<open>seatMapTemplate c = Some template\<close> Some None Cons.IH cs
          by (auto simp: allSeats_Cons)
      next
        case (Some seat)
        then have "\<not> (\<forall>e\<in>set items. \<not> eligible ids (c, e))"
          using scanSeatItems_None [of ids c template items] by simp
        then show ?thesis
          using \<open>seatMapTemplate c = Some template\<close> \<open>tpl_seatMaps template = Some items\<close> Some cs
          by (auto simp: allSeats_Cons)
      qed
    qed
  qed
qed

lemma scanSeatMaps_Some:
  assumes "scanSeatMaps ids cars = Some s"
  shows "\<exists>pre p post. allSeats cars = pre @ p # post \<and> (\<forall>q\<in>set pre. \<not> eligible ids q) \<and>
           eligible ids p \<and> seatOf s p"
  using assms
proof (induction cars)
  case Nil
  then show ?case by simp
next
  case (Cons c cs)
  let ?P = "\<lambda>xs. \<exists>pre p post. xs = pre @ p # post \<and> (\<forall>q\<in>set pre. \<not> eligible ids q) \<and>
           eligible ids p \<and> seatOf s p"
  have skip: "?P (allSeats (c # cs))"
    if none: "\<forall>p\<in>set (carSeats c). \<not> eligible ids p" and rest: "scanSeatMaps ids cs = Some s"
  proof -
    from Cons.IH [OF rest] obtain pre p post where
      d: "allSeats cs = pre @ p # post" "\<forall>q\<in>set pre. \<not> eligible ids q"
         "eligible ids p" "seatOf s p" by blast
    have "allSeats (c # cs) = (carSeats c @ pre) @ p # post"
      using d(1) by (simp add: allSeats_Cons)
    moreover have "\<forall>q\<in>set (carSeats c @ pre). \<not> eligible ids q"
      using none d(2) by auto
    ultimately show ?thesis using d(3,4) by blast
  qed
  show ?case
  proof (cases "seatMapTemplate c")
    case None
    then have "carSeats c = []" by (simp add: carSeats_def)
    moreover from None Cons.prems have "scanSeatMaps ids cs = Some s" by simp
    ultimately show ?thesis using skip by simp
  next
    case (Some template)
    show ?thesis
    proof (cases "tpl_seatMaps template")
      case None
      then have "carSeats c = []" using Some by (simp add: carSeats_def)
      moreover from None Some Cons.prems have "scanSeatMaps ids cs = Some s" by simp
      ultimately show ?thesis using skip by simp
    next
      case (Some items)
      have cs: "carSeats c = map (Pair c) items"
        using \<open>seatMapTemplate c = Some template\<close> Some by (simp add: carSeats_def)
      show ?thesis
      proof (cases "scanSeatItems ids c template items")
        case None
        then have "\<forall>e\<in>set items. \<not> eligible ids (c, e)" by (simp add: scanSeatItems_None)
        then have "\<forall>p\<in>set (carSeats c). \<not> eligible ids p" using cs by auto
        moreover have "scanSeatMaps ids cs = Some s"
          using Cons.prems \<open>seatMapTemplate c = Some template\<close> Some None by simp
        ultimately show ?thesis by (rule skip)
      next
        case (Some seat)
        then have "seat = s"
          using Cons.prems \<open>seatMapTemplate c = Some template\<close> \<open>tpl_seatMaps template = Some items\<close>
          by simp
        with Some have "scanSeatItems ids c template items = Some s" by simp
        from scanSeatItems_Some [OF this] obtain pre e post where
          d: "items = pre @ e # post" "\<forall>q\<in>set pre. \<not> eligible ids (c, q)"
             "eligible ids (c, e)" "seatOf s (c, e)" by blast
        have "allSeats (c # cs) = map (Pair c) pre @ (c, e) # (map (Pair c) post @ allSeats cs)"
          using d(1) cs by (simp add: allSeats_Cons)
        moreover have "\<forall>q\<in>set (map (Pair c) pre). \<not> eligible ids q"
          using d(2) by auto
        ultimately show ?thesis using d(3,4) by blast
      qed
    qed
  qed
qed

lemma selectedCabinClassIds_iff:
  "i \<in> set (selectedCabinClassIds sel) \<longleftrightarrow> selectedClassId sel i"
proof (induction sel)
  case Nil
  show ?case by (simp add: selectedCabinClassIds_def selectedClassId_def map_filter_simps)
next
  case (Cons key keys)
  then show ?case
    by (cases "map_of CABIN_CLASSES key")
       (auto simp: selectedCabinClassIds_def selectedClassId_def map_filter_simps)
qed

lemma occupiedSeats_held:
  assumes "num \<noteq> []"
  shows "num \<in> set (List.map_filter (\<lambda>alloc. truthyString (as_seatNumber alloc)) allocs)
           \<longleftrightarrow> list_ex (\<lambda>alloc. as_seatNumber alloc = Some num) allocs"
proof (induction allocs)
  case Nil
  show ?case by (simp add: map_filter_simps)
next
  case (Cons a as)
  show ?case
  proof (cases "as_seatNumber a")
    case None
    then show ?thesis using Cons by (simp add: map_filter_simps truthyString_def)
  next
    case (Some n)
    show ?thesis
    proof (cases n)
      case Nil
      then show ?thesis using Some Cons assms by (auto simp: map_filter_simps truthyString_def)
    next
      case (Cons c cs)
      then show ?thesis
        using Some \<open>(num \<in> set (List.map_filter (\<lambda>alloc. truthyString (as_seatNumber alloc)) as))
           = list_ex (\<lambda>alloc. as_seatNumber alloc = Some num) as\<close>
        by (auto simp: map_filter_simps truthyString_def)
    qed
  qed
qed

lemma occupiedSeats_iff:
  "num \<noteq> [] \<Longrightarrow> num \<in> occupiedSeats sm \<longleftrightarrow> heldInCar sm num"
  by (simp add: occupiedSeats_def heldInCar_def occupiedSeats_held split: option.splits)

lemma eligible_meetsConditions:
  "eligible (selectedCabinClassIds sel) p = meetsConditions sel p"
  by (auto simp: eligible_def meetsConditions_def selectedCabinClassIds_iff occupiedSeats_iff
        split: option.splits)

text \<open>
  C5. The locator returns nothing exactly when no seat of any car meets the four
  conditions. A seat it returns is a seat of the response that is saleable, whose cabin
  class id is the catalogue id of one of the selected class keys, that has a seat number,
  and whose number no entry of its car's allocation list carries; and every seat before
  it, in seat-map order and then template item order, fails one of the four conditions.
\<close>

theorem findFirstAvailableSeat_first:
  "(findFirstAvailableSeat seatMaps sel = None \<longleftrightarrow>
      (\<forall>p\<in>set (allSeats seatMaps). \<not> meetsConditions sel p)) \<and>
   (\<forall>seat. findFirstAvailableSeat seatMaps sel = Some seat \<longrightarrow>
      (\<exists>pre p post.
          allSeats seatMaps = pre @ p # post \<and>
          (\<forall>q\<in>set pre. \<not> meetsConditions sel q) \<and>
          meetsConditions sel p \<and> seatOf seat p \<and>
          (\<exists>it. item (snd p) = Some it \<and> saleable it \<and>
                (\<exists>key\<in>set sel. \<exists>config. map_of CABIN_CLASSES key = Some config \<and>
                                         cabinClassId it = Some (cc_id config))) \<and>
          sc_seatNumber seat \<noteq> [] \<and>
          (\<forall>allocs. allocationSeats (fst p) = Some allocs \<longrightarrow>
                    (\<forall>alloc\<in>set allocs. as_seatNumber alloc \<noteq> Some (sc_seatNumber seat)))))"
proof (intro conjI allI impI)
  show "findFirstAvailableSeat seatMaps sel = None \<longleftrightarrow>
      (\<forall>p\<in>set (allSeats seatMaps). \<not> meetsConditions sel p)"
    by (simp add: findFirstAvailableSeat_def scanSeatMaps_None eligible_meetsConditions)
next
  fix seat
  assume "findFirstAvailableSeat seatMaps sel = Some seat"
  then have "scanSeatMaps (selectedCabinClassIds sel) seatMaps = Some seat"
    by (simp add: findFirstAvailableSeat_def)
  from scanSeatMaps_Some [OF this] obtain pre p post where
    d: "allSeats seatMaps = pre @ p # post"
       "\<forall>q\<in>set pre. \<not> meetsConditions sel q"
       "meetsConditions sel p" "seatOf seat p"
    unfolding eligible_meetsConditions by blast
  from d(3,4) obtain it where
    it: "item (snd p) = Some it" "saleable it"
        "case cabinClassId it of None \<Rightarrow> False | Some i \<Rightarrow> selectedClassId sel i"
    and num: "seatNumber (snd p) = Some (sc_seatNumber seat)" "sc_seatNumber seat \<noteq> []"
        "\<not> heldInCar (fst p) (sc_seatNumber seat)"
    by (auto simp: meetsConditions_def seatOf_def split: option.splits)
  from it(3) have cls: "\<exists>key\<in>set sel. \<exists>config. map_of CABIN_CLASSES key = Some config \<and>
                                         cabinClassId it = Some (cc_id config)"
    by (auto simp: selectedClassId_def list_ex_iff split: option.splits)
  from num(3) have free: "\<forall>allocs. allocationSeats (fst p) = Some allocs \<longrightarrow>
                    (\<forall>alloc\<in>set allocs. as_seatNumber alloc \<noteq> Some (sc_seatNumber seat))"
    by (auto simp: heldInCar_def list_ex_iff)
  have "\<exists>it. item (snd p) = Some it \<and> saleable it \<and>
                (\<exists>key\<in>set sel. \<exists>config. map_of CABIN_CLASSES key = Some config \<and>
                                         cabinClassId it = Some (cc_id config))"
    using it(1,2) cls by blast
  with d num(2) free show "\<exists>pre p post.
          allSeats seatMaps = pre @ p # post \<and>
          (\<forall>q\<in>set pre. \<not> meetsConditions sel q) \<and>
          meetsConditions sel p \<and> seatOf seat p \<and>
          (\<exists>it. item (snd p) = Some it \<and> saleable it \<and>
                (\<exists>key\<in>set sel. \<exists>config. map_of CABIN_CLASSES key = Some config \<and>
                                         cabinClassId it = Some (cc_id config))) \<and>
          sc_seatNumber seat \<noteq> [] \<and>
          (\<forall>allocs. allocationSeats (fst p) = Some allocs \<longrightarrow>
                    (\<forall>alloc\<in>set allocs. as_seatNumber alloc \<noteq> Some (sc_seatNumber seat)))"
    by blast
qed

lemma exampleSeatMaps_seat:
  "findFirstAvailableSeat exampleSeatMaps [''ECONOMY''] =
     Some \<lparr>sc_trainCarId = 31, sc_seatNumber = ''5B'', sc_carName = Some ''CAF'',
           sc_wagonNumber = ''2'', sc_cabinClassName = ''Ekonomi Sinifi'', sc_itemId = 40\<rparr>"
  by code_simp

lemma exampleSeatMaps_business:
  "findFirstAvailableSeat exampleSeatMaps [''BUSINESS''] =
     Some \<lparr>sc_trainCarId = 31, sc_seatNumber = ''1A'', sc_carName = Some ''CAF'',
           sc_wagonNumber = ''2'', sc_cabinClassName = ''Business Sinifi'', sc_itemId = 40\<rparr>"
  by code_simp

lemma occupiedExample_none:
  "\<forall>p\<in>set (allSeats [exampleCar [exampleSeat ''5A'' 2 True] [''5A'']]).
      \<not> meetsConditions [''ECONOMY''] p"
  by (simp add: allSeats_def carSeats_def exampleCar_def exampleSeat_def meetsConditions_def
      heldInCar_def)

lemma businessFirst_meets:
  "meetsConditions [''BUSINESS''] (hd (allSeats exampleSeatMaps))"
  by code_simp

theorem findFirstAvailableSeat_first_witness:
  "\<not> list_ex (meetsConditions [''ECONOMY''])
       (allSeats [exampleCar [exampleSeat ''5A'' 2 True] [''5A'']]) \<and>
   findFirstAvailableSeat [exampleCar [exampleSeat ''5A'' 2 True] [''5A'']] [''ECONOMY''] = None \<and>
   findFirstAvailableSeat exampleSeatMaps [''ECONOMY''] =
     Some \<lparr>sc_trainCarId = 31, sc_seatNumber = ''5B'', sc_carName = Some ''CAF'',
           sc_wagonNumber = ''2'', sc_cabinClassName = ''Ekonomi Sinifi'', sc_itemId = 40\<rparr> \<and>
   (\<exists>p\<in>set (allSeats exampleSeatMaps).
       meetsConditions [''ECONOMY''] p \<and> seatNumber (snd p) = Some ''5B'' \<and>
       \<not> heldInCar (fst p) ''5B'') \<and>
   meetsConditions [''BUSINESS''] (hd (allSeats exampleSeatMaps)) \<and>
   findFirstAvailableSeat exampleSeatMaps [''BUSINESS''] \<noteq> None \<and>
   findFirstAvailableSeat exampleSeatMaps [''BUSINESS''] =
     Some \<lparr>sc_trainCarId = 31, sc_seatNumber = ''1A'', sc_carName = Some ''CAF'',
           sc_wagonNumber = ''2'', sc_cabinClassName = ''Business Sinifi'', sc_itemId = 40\<rparr>"
proof -
  note none = findFirstAvailableSeat_first
      [of "[exampleCar [exampleSeat ''5A'' 2 True] [''5A'']]" "[''ECONOMY'']"]
  from none occupiedExample_none
  have a: "findFirstAvailableSeat [exampleCar [exampleSeat ''5A'' 2 True] [''5A'']] [''ECONOMY'']
             = None" by blast
  note some = findFirstAvailableSeat_first [of exampleSeatMaps "[''ECONOMY'']"]
  from some exampleSeatMaps_seat obtain pre p post where
    d: "allSeats exampleSeatMaps = pre @ p # post"
       "meetsConditions [''ECONOMY''] p"
       "seatOf \<lparr>sc_trainCarId = 31, sc_seatNumber = ''5B'', sc_carName = Some ''CAF'',
           sc_wagonNumber = ''2'', sc_cabinClassName = ''Ekonomi Sinifi'', sc_itemId = 40\<rparr> p"
    by blast
  from d(1) have m: "p \<in> set (allSeats exampleSeatMaps)" by simp
  from d(3) have n5: "seatNumber (snd p) = Some ''5B''" by (simp add: seatOf_def)
  with d(2) have "\<not> heldInCar (fst p) ''5B''"
    by (auto simp: meetsConditions_def split: option.splits)
  with m d(2) n5
  have e: "\<exists>p\<in>set (allSeats exampleSeatMaps).
       meetsConditions [''ECONOMY''] p \<and> seatNumber (snd p) = Some ''5B'' \<and>
       \<not> heldInCar (fst p) ''5B''" by blast
  have n: "\<not> list_ex (meetsConditions [''ECONOMY''])
       (allSeats [exampleCar [exampleSeat ''5A'' 2 True] [''5A'']])"
    using occupiedExample_none by (simp add: list_ex_iff)
  have nonempty: "allSeats exampleSeatMaps \<noteq> []" by code_simp
  then have "hd (allSeats exampleSeatMaps) \<in> set (allSeats exampleSeatMaps)" by simp
  with businessFirst_meets
  have "\<not> (\<forall>p\<in>set (allSeats exampleSeatMaps). \<not> meetsConditions [''BUSINESS''] p)" by blast
  with findFirstAvailableSeat_first [of exampleSeatMaps "[''BUSINESS'']"]
  have b: "findFirstAvailableSeat exampleSeatMaps [''BUSINESS''] \<noteq> None" by blast
  show ?thesis
    by (intro conjI n a exampleSeatMaps_seat e businessFirst_meets b exampleSeatMaps_business)
qed

section \<open>State and effects\<close>

lemma emit_fields:
  "isLoading (emit e w) = isLoading w"
  "allocatedSeat (emit e w) = allocatedSeat w"
  "searchInterval (emit e w) = searchInterval w"
  "isSearching (emit e w) = isSearching w"
  "isFirstRequest (emit e w) = isFirstRequest w"
  "timers (emit e w) = timers w"
  "trace (emit e w) = trace w @ [(e, isLoading w)]"
  by (simp_all add: emit_def)

lemma newEvents_append: "trace w' = trace w @ es \<Longrightarrow> newEvents w w' = es"
  by (simp add: newEvents_def)

lemma stopSearch_fields:
  "allocatedSeat (stopSearch w) = allocatedSeat w"
  "isLoading (stopSearch w) = isLoading w"
  "isFirstRequest (stopSearch w) = isFirstRequest w"
  by (simp_all add: stopSearch_def emit_def Let_def split: option.splits)

lemma stopSearch_trace:
  "trace (stopSearch w) =
     trace w @ (if isSearching w
                then [(SetSearchingState False, isLoading w), (StopMusic, isLoading w),
                      (UpdateStatus ''Arama durduruldu.'' ''waiting'', isLoading w)]
                else [])"
  by (simp add: stopSearch_def emit_def Let_def split: option.splits)

lemma stopSearch_timer:
  assumes "isSearching w" and "searchInterval w = Some h" and "h \<noteq> 0"
  shows "h \<notin> timers (stopSearch w) \<and> searchInterval (stopSearch w) = None"
proof -
  from assms(3) obtain k where "h = Suc k" by (cases h) auto
  with assms(1,2) show ?thesis
    by (simp add: stopSearch_def emit_def Let_def truthyNat_def)
qed

lemma stopSearch_timers_subset: "timers (stopSearch w) \<subseteq> timers w"
  by (auto simp: stopSearch_def emit_def Let_def split: option.splits)

lemma heldWorld_fields:
  "isSearching heldWorld" "searchInterval heldWorld = Some 4"
  "allocatedSeat heldWorld = Some exampleAllocation" "\<not> isLoading heldWorld"
  "trace heldWorld = []" "timers heldWorld = {4}"
  by (simp_all add: heldWorld_def searchingWorld_def idleWorld_def)

lemma idleWorld_fields:
  "\<not> isSearching idleWorld" "\<not> isLoading idleWorld" "allocatedSeat idleWorld = None"
  "trace idleWorld = []"
  by (simp_all add: idleWorld_def)

lemma busyWorld_fields:
  "isLoading busyWorld" "trace busyWorld = []" "allocatedSeat busyWorld = None"
  by (simp_all add: busyWorld_def searchingWorld_def idleWorld_def)

text \<open>
  What holds of \<open>stopSearch\<close> in every state. When a search is active it ends the search,
  disarms the timer whose handle \<open>searchInterval\<close> holds (a non-zero number) and forgets
  the handle, arms no timer, leaves the stored allocation as it is and sends no request;
  when no search is active it changes nothing.
\<close>

theorem stopSearch_keeps_allocation:
  "(isSearching w \<longrightarrow>
      \<not> isSearching (stopSearch w) \<and>
      (\<forall>h. searchInterval w = Some h \<and> h \<noteq> 0 \<longrightarrow>
           h \<notin> timers (stopSearch w) \<and> searchInterval (stopSearch w) = None) \<and>
      timers (stopSearch w) \<subseteq> timers w \<and>
      allocatedSeat (stopSearch w) = allocatedSeat w \<and>
      \<not> list_ex isFetch (newEvents w (stopSearch w))) \<and>
   (\<not> isSearching w \<longrightarrow> stopSearch w = w)"
proof (intro conjI impI allI)
  assume s: "isSearching w"
  then show "\<not> isSearching (stopSearch w)"
    by (simp add: stopSearch_def emit_def Let_def split: option.splits)
  show "timers (stopSearch w) \<subseteq> timers w" by (rule stopSearch_timers_subset)
  show "allocatedSeat (stopSearch w) = allocatedSeat w" by (rule stopSearch_fields)
  have "newEvents w (stopSearch w) =
          [(SetSearchingState False, isLoading w), (StopMusic, isLoading w),
           (UpdateStatus ''Arama durduruldu.'' ''waiting'', isLoading w)]"
    using s by (intro newEvents_append) (simp add: stopSearch_trace)
  then show "\<not> list_ex isFetch (newEvents w (stopSearch w))"
    by (simp add: isFetch_def)
  fix h
  assume "searchInterval w = Some h \<and> h \<noteq> 0"
  with s show "h \<notin> timers (stopSearch w)" "searchInterval (stopSearch w) = None"
    using stopSearch_timer by blast+
next
  assume "\<not> isSearching w"
  then show "stopSearch w = w" by (simp add: stopSearch_def)
qed

theorem stopSearch_keeps_allocation_witness:
  "isSearching heldWorld \<and> searchInterval heldWorld = Some 4 \<and> (4::nat) \<noteq> 0 \<and>
   4 \<notin> timers (stopSearch heldWorld) \<and>
   allocatedSeat (stopSearch heldWorld) = Some exampleAllocation \<and>
   \<not> isSearching idleWorld \<and> stopSearch idleWorld = idleWorld"
proof -
  note held = stopSearch_keeps_allocation [of heldWorld]
  note idle = stopSearch_keeps_allocation [of idleWorld]
  have n: "(4::nat) \<noteq> 0" by simp
  from held heldWorld_fields(1,2) n have "4 \<notin> timers (stopSearch heldWorld)" by blast
  moreover from held heldWorld_fields(1,3)
  have "allocatedSeat (stopSearch heldWorld) = Some exampleAllocation" by simp
  moreover from idle idleWorld_fields(1) have "stopSearch idleWorld = idleWorld" by blast
  ultimately show ?thesis using heldWorld_fields(1,2) idleWorld_fields(1) n by blast
qed

lemma invalidStartWorld_fields:
  "\<not> isSearching invalidStartWorld" "searchInterval invalidStartWorld = Some 1"
  "timers invalidStartWorld = {1}" "\<not> isLoading invalidStartWorld"
  by (simp_all add: invalidStartWorld_def startSearch_def performCheckBegin_def stopSearch_def
        clearAllocation_def emit_def idleWorld_def truthyNat_def Let_def)

lemma restartedWorld_fields:
  "isSearching restartedWorld" "searchInterval restartedWorld = Some 2"
  "timers restartedWorld = {1, 2}"
  by (auto simp: restartedWorld_def startSearch_def performCheckBegin_def
        clearAllocation_def emit_def invalidStartWorld_fields Let_def)

text \<open>
  C7. The claim that \<open>stopSearch\<close> cancels the polling timer from any state in which a
  search is active, evaluated on the code. Start is pressed with an invalid form: inside
  \<open>startSearch\<close>, \<open>performCheck\<close> calls \<open>stopSearch\<close> while the search is active and before
  any handle is stored, so nothing is cancelled, and timer 1 is armed afterwards; the
  search is then not active, so a further \<open>stopSearch\<close> changes nothing. Start is pressed
  again with a valid form: timer 2 is armed and its handle replaces that of timer 1. Now
  a search is active with two polling timers armed, and \<open>stopSearch\<close> disarms timer 2
  only: timer 1 stays armed.
\<close>

theorem stopSearch_leaves_timer_armed:
  "\<not> isSearching invalidStartWorld \<and> timers invalidStartWorld = {1} \<and>
   stopSearch invalidStartWorld = invalidStartWorld \<and>
   isSearching restartedWorld \<and> searchInterval restartedWorld = Some 2 \<and>
   timers restartedWorld = {1, 2} \<and>
   \<not> isSearching (stopSearch restartedWorld) \<and>
   searchInterval (stopSearch restartedWorld) = None \<and>
   timers (stopSearch restartedWorld) = {1}"
proof -
  have a: "stopSearch invalidStartWorld = invalidStartWorld"
    using invalidStartWorld_fields(1) by (simp add: stopSearch_def)
  have b: "\<not> isSearching (stopSearch restartedWorld)"
    "searchInterval (stopSearch restartedWorld) = None"
    "timers (stopSearch restartedWorld) = {1}"
    using restartedWorld_fields
    by (auto simp: stopSearch_def emit_def truthyNat_def Let_def)
  show ?thesis
    by (intro conjI invalidStartWorld_fields(1,3) a restartedWorld_fields b)
qed

section \<open>Client\<close>

lemma getRandomDelay_bounds:
  assumes r: "rounding fl" and r0: "0 \<le> random" and r1: "random < 1"
    and le: "min_ms \<le> max_ms"
    and b: "\<bar>min_ms\<bar> \<le> 2 ^ 53" "\<bar>max_ms\<bar> \<le> 2 ^ 53" "\<bar>max_ms - min_ms\<bar> \<le> 2 ^ 53"
  shows "min_ms \<le> getRandomDelay fl random min_ms max_ms \<and>
         getRandomDelay fl random min_ms max_ms \<le> max_ms"
proof -
  from r have mono: "mono fl" and ex: "\<And>i::int. \<bar>i\<bar> \<le> 2 ^ 53 \<Longrightarrow> fl (of_int i) = of_int i"
    by (simp_all add: rounding_def)
  have f0: "fl 0 = 0" using ex [of 0] by simp
  have fd: "fl (of_int max_ms - of_int min_ms) = of_int (max_ms - min_ms)"
    using ex [OF b(3)] by simp
  let ?d = "real_of_int (max_ms - min_ms)"
  have d0: "0 \<le> ?d" using le by simp
  have p0: "0 \<le> random * ?d" using r0 d0 by simp
  have p1: "random * ?d \<le> ?d" using mult_right_mono [of random 1 ?d] r1 d0 by simp
  have x0: "0 \<le> fl (random * ?d)"
    using monoD [OF mono p0] f0 by simp
  have x1: "fl (random * ?d) \<le> ?d"
    using monoD [OF mono p1] ex [OF b(3)] by simp
  have y0: "real_of_int min_ms \<le> of_int min_ms + fl (random * ?d)" using x0 by simp
  have y1: "of_int min_ms + fl (random * ?d) \<le> real_of_int max_ms" using x1 by simp
  have z0: "real_of_int min_ms \<le> fl (of_int min_ms + fl (random * ?d))"
    using monoD [OF mono y0] ex [OF b(1)] by simp
  have z1: "fl (of_int min_ms + fl (random * ?d)) \<le> real_of_int max_ms"
    using monoD [OF mono y1] ex [OF b(2)] by simp
  have g: "getRandomDelay fl random min_ms max_ms = \<lfloor>fl (of_int min_ms + fl (random * ?d))\<rfloor>"
    by (simp add: getRandomDelay_def fd)
  have "min_ms \<le> \<lfloor>fl (of_int min_ms + fl (random * ?d))\<rfloor>"
    using z0 by (simp add: le_floor_iff)
  moreover have "\<lfloor>fl (of_int min_ms + fl (random * ?d))\<rfloor> \<le> max_ms"
    using z1 by (simp add: floor_le_iff)
  ultimately show ?thesis by (simp add: g)
qed

lemma checkAvailability_idle:
  assumes "\<not> isLoading w"
  shows "trace (snd (checkAvailability fl random reply params skipDelay w)) =
           trace w @
           (if skipDelay then []
            else [(Sleep (getRandomDelay fl random MIN_ANTI_BOT_DELAY MAX_ANTI_BOT_DELAY), True)]) @
           [(Fetch (AvailabilityRequest
                      (departureStationId params) (departureStationName params)
                      (arrivalStationId params) (arrivalStationName params)
                      (departureDate params @ '' 00:00:00'')), True)]"
    and "\<not> isLoading (snd (checkAvailability fl random reply params skipDelay w))"
    and "allocatedSeat (snd (checkAvailability fl random reply params skipDelay w)) = allocatedSeat w"
    and "fst (checkAvailability fl random reply params skipDelay w) \<noteq> Inr None"
  using assms
  by (simp_all add: checkAvailability_def emit_def Let_def
        split: reply.splits sum.splits)

lemma checkAvailability_busy:
  assumes "isLoading w"
  shows "checkAvailability fl random reply params skipDelay w = (Inr None, w)"
  using assms by (simp add: checkAvailability_def)

text \<open>
  C8. For every value the random source can return, \<open>getRandomDelay\<close> yields an integer
  between its two bounds, both included. A call of \<open>checkAvailability\<close> that is not busy
  and does not skip the delay sleeps once, before the request, for a delay between
  \<open>MIN_ANTI_BOT_DELAY\<close> and \<open>MAX_ANTI_BOT_DELAY\<close>; with \<open>skipDelay\<close> it sends the request
  without sleeping.
\<close>

theorem anti_bot_delay_range:
  assumes "rounding fl" and "0 \<le> random" and "random < 1"
  shows "(min_ms \<le> max_ms \<and> \<bar>min_ms\<bar> \<le> 2 ^ 53 \<and> \<bar>max_ms\<bar> \<le> 2 ^ 53 \<and> \<bar>max_ms - min_ms\<bar> \<le> 2 ^ 53
            \<longrightarrow> min_ms \<le> getRandomDelay fl random min_ms max_ms \<and>
                getRandomDelay fl random min_ms max_ms \<le> max_ms) \<and>
         (\<not> isLoading w \<longrightarrow>
            (\<exists>d req. map fst (newEvents w (snd (checkAvailability fl random reply params False w)))
                        = [Sleep d, Fetch req] \<and>
                      MIN_ANTI_BOT_DELAY \<le> d \<and> d \<le> MAX_ANTI_BOT_DELAY) \<and>
            (\<exists>req. map fst (newEvents w (snd (checkAvailability fl random reply params True w)))
                        = [Fetch req]))"
proof (intro conjI impI)
  assume "min_ms \<le> max_ms \<and> \<bar>min_ms\<bar> \<le> 2 ^ 53 \<and> \<bar>max_ms\<bar> \<le> 2 ^ 53 \<and> \<bar>max_ms - min_ms\<bar> \<le> 2 ^ 53"
  then have "min_ms \<le> getRandomDelay fl random min_ms max_ms \<and>
        getRandomDelay fl random min_ms max_ms \<le> max_ms"
    using getRandomDelay_bounds [OF assms] by blast
  then show "min_ms \<le> getRandomDelay fl random min_ms max_ms"
    and "getRandomDelay fl random min_ms max_ms \<le> max_ms" by blast+
next
  assume idle: "\<not> isLoading w"
  let ?d = "getRandomDelay fl random MIN_ANTI_BOT_DELAY MAX_ANTI_BOT_DELAY"
  have bounds: "MIN_ANTI_BOT_DELAY \<le> ?d \<and> ?d \<le> MAX_ANTI_BOT_DELAY"
    by (rule getRandomDelay_bounds [OF assms])
       (simp_all add: MIN_ANTI_BOT_DELAY_def MAX_ANTI_BOT_DELAY_def)
  have "newEvents w (snd (checkAvailability fl random reply params False w)) =
          [(Sleep ?d, True),
           (Fetch (AvailabilityRequest
                      (departureStationId params) (departureStationName params)
                      (arrivalStationId params) (arrivalStationName params)
                      (departureDate params @ '' 00:00:00'')), True)]"
    by (rule newEvents_append) (simp add: checkAvailability_idle(1) [OF idle])
  then show "\<exists>d req. map fst (newEvents w (snd (checkAvailability fl random reply params False w)))
                        = [Sleep d, Fetch req] \<and>
                      MIN_ANTI_BOT_DELAY \<le> d \<and> d \<le> MAX_ANTI_BOT_DELAY"
    using bounds by simp
  have "newEvents w (snd (checkAvailability fl random reply params True w)) =
          [(Fetch (AvailabilityRequest
                      (departureStationId params) (departureStationName params)
                      (arrivalStationId params) (arrivalStationName params)
                      (departureDate params @ '' 00:00:00'')), True)]"
    by (rule newEvents_append) (simp add: checkAvailability_idle(1) [OF idle])
  then show "\<exists>req. map fst (newEvents w (snd (checkAvailability fl random reply params True w)))
                        = [Fetch req]"
    by simp
qed

theorem anti_bot_delay_range_witness:
  "rounding (\<lambda>x. x) \<and> (0::real) \<le> 1 / 2 \<and> (1 / 2 :: real) < 1 \<and>
   (3000::int) \<le> 8000 \<and>
   getRandomDelay (\<lambda>x. x) (1 / 2) 3000 8000 = 5500 \<and>
   3000 \<le> getRandomDelay (\<lambda>x. x) (1 / 2) 3000 8000 \<and>
   getRandomDelay (\<lambda>x. x) (1 / 2) 3000 8000 \<le> 8000 \<and>
   \<not> isLoading idleWorld \<and>
   (\<exists>d req. map fst (newEvents idleWorld
                 (snd (checkAvailability (\<lambda>x. x) (1 / 2) (Rejected ''Failed to fetch'')
                         exampleParams False idleWorld))) = [Sleep d, Fetch req] \<and>
             MIN_ANTI_BOT_DELAY \<le> d \<and> d \<le> MAX_ANTI_BOT_DELAY)"
proof -
  have r: "rounding (\<lambda>x. x)" by (simp add: rounding_def mono_def)
  have p: "(0::real) \<le> 1 / 2" "(1 / 2 :: real) < 1" by simp_all
  have h: "(3000::int) \<le> 8000 \<and> \<bar>3000::int\<bar> \<le> 2 ^ 53 \<and> \<bar>8000::int\<bar> \<le> 2 ^ 53 \<and>
           \<bar>8000 - 3000 :: int\<bar> \<le> 2 ^ 53" by simp
  have v: "getRandomDelay (\<lambda>x. x) (1 / 2) 3000 8000 = 5500"
    by (simp add: getRandomDelay_def)
  note inst = anti_bot_delay_range [OF r p, of 3000 8000 idleWorld "Rejected ''Failed to fetch''"
      exampleParams]
  from inst h have "3000 \<le> getRandomDelay (\<lambda>x. x) (1 / 2) 3000 8000 \<and>
      getRandomDelay (\<lambda>x. x) (1 / 2) 3000 8000 \<le> 8000" by blast
  moreover from inst idleWorld_fields(2)
  have "\<exists>d req. map fst (newEvents idleWorld
                 (snd (checkAvailability (\<lambda>x. x) (1 / 2) (Rejected ''Failed to fetch'')
                         exampleParams False idleWorld))) = [Sleep d, Fetch req] \<and>
             MIN_ANTI_BOT_DELAY \<le> d \<and> d \<le> MAX_ANTI_BOT_DELAY" by blast
  ultimately show ?thesis using r p v idleWorld_fields(2) by simp
qed

lemma checkSeatMap_effects:
  "trace (snd (checkSeatMap reply trainId fromStationId toStationId w)) =
     trace w @ [(Fetch (SeatMapRequest fromStationId toStationId trainId), isLoading w)]"
  "isLoading (snd (checkSeatMap reply trainId fromStationId toStationId w)) = isLoading w"
  "allocatedSeat (snd (checkSeatMap reply trainId fromStationId toStationId w)) = allocatedSeat w"
  by (simp_all add: checkSeatMap_def emit_def Let_def)

lemma allocateSeat_effects:
  "\<exists>req. trace (snd (allocateSeat reply seatData w)) =
           trace w @ [(Fetch (AllocateRequest req), isLoading w)]"
  "isLoading (snd (allocateSeat reply seatData w)) = isLoading w"
  "allocatedSeat (snd (allocateSeat reply seatData w)) = allocatedSeat w"
  by (simp_all add: allocateSeat_def emit_def Let_def)

lemma deallocateSeat_effects:
  "trace (snd (deallocateSeat reply allocationData w)) =
     trace w @ [(Fetch (DeallocateRequest allocationData), isLoading w)]"
  "isLoading (snd (deallocateSeat reply allocationData w)) = isLoading w"
  "allocatedSeat (snd (deallocateSeat reply allocationData w)) = allocatedSeat w"
  by (simp_all add: deallocateSeat_def emit_def Let_def)

text \<open>
  C3, as the code has it. Only \<open>checkAvailability\<close> is guarded by the in-flight flag. Called
  while the flag is set it returns the busy value \<open>null\<close> and does nothing. Called while
  the flag is clear it does not return the busy value, the flag is set at its sleep and at
  its request, it sends exactly one request, and the flag is clear again when it finishes,
  whether it returns data or throws. The seat-map, allocate and release calls neither read
  nor change the flag: each sends its request whatever the flag is.
\<close>

theorem checkAvailability_in_flight:
  "(isLoading w \<longrightarrow>
      checkAvailability fl random reply params skipDelay w = (Inr None, w)) \<and>
   (\<not> isLoading w \<longrightarrow>
      fst (checkAvailability fl random reply params skipDelay w) \<noteq> Inr None \<and>
      \<not> isLoading (snd (checkAvailability fl random reply params skipDelay w)) \<and>
      (\<forall>e\<in>set (newEvents w (snd (checkAvailability fl random reply params skipDelay w))). snd e) \<and>
      length (filter isFetch
                (newEvents w (snd (checkAvailability fl random reply params skipDelay w)))) = 1) \<and>
   isLoading (snd (checkSeatMap seatMapReply trainId fromStationId toStationId w)) = isLoading w \<and>
   newEvents w (snd (checkSeatMap seatMapReply trainId fromStationId toStationId w)) =
     [(Fetch (SeatMapRequest fromStationId toStationId trainId), isLoading w)] \<and>
   isLoading (snd (allocateSeat allocateReply seatData w)) = isLoading w \<and>
   (\<exists>req. newEvents w (snd (allocateSeat allocateReply seatData w)) =
            [(Fetch (AllocateRequest req), isLoading w)]) \<and>
   isLoading (snd (deallocateSeat releaseReply allocationData w)) = isLoading w \<and>
   newEvents w (snd (deallocateSeat releaseReply allocationData w)) =
     [(Fetch (DeallocateRequest allocationData), isLoading w)]"
proof -
  have busy: "checkAvailability fl random reply params skipDelay w = (Inr None, w)"
    if "isLoading w"
    using that by (rule checkAvailability_busy)
  have idle: "fst (checkAvailability fl random reply params skipDelay w) \<noteq> Inr None \<and>
      \<not> isLoading (snd (checkAvailability fl random reply params skipDelay w)) \<and>
      (\<forall>e\<in>set (newEvents w (snd (checkAvailability fl random reply params skipDelay w))). snd e) \<and>
      length (filter isFetch
                (newEvents w (snd (checkAvailability fl random reply params skipDelay w)))) = 1"
    if i: "\<not> isLoading w"
  proof -
    have ev: "newEvents w (snd (checkAvailability fl random reply params skipDelay w)) =
           (if skipDelay then []
            else [(Sleep (getRandomDelay fl random MIN_ANTI_BOT_DELAY MAX_ANTI_BOT_DELAY), True)]) @
           [(Fetch (AvailabilityRequest
                      (departureStationId params) (departureStationName params)
                      (arrivalStationId params) (arrivalStationName params)
                      (departureDate params @ '' 00:00:00'')), True)]"
      by (rule newEvents_append) (rule checkAvailability_idle(1) [OF i])
    show ?thesis
      using checkAvailability_idle(2,4) [OF i]
      by (simp add: ev isFetch_def)
  qed
  have sm: "newEvents w (snd (checkSeatMap seatMapReply trainId fromStationId toStationId w)) =
     [(Fetch (SeatMapRequest fromStationId toStationId trainId), isLoading w)]"
    by (rule newEvents_append) (rule checkSeatMap_effects(1))
  have al: "\<exists>req. newEvents w (snd (allocateSeat allocateReply seatData w)) =
            [(Fetch (AllocateRequest req), isLoading w)]"
    using allocateSeat_effects(1) [of allocateReply seatData w]
    by (auto dest: newEvents_append)
  have dl: "newEvents w (snd (deallocateSeat releaseReply allocationData w)) =
     [(Fetch (DeallocateRequest allocationData), isLoading w)]"
    by (rule newEvents_append) (rule deallocateSeat_effects(1))
  show ?thesis
    using busy idle sm al dl checkSeatMap_effects(2) allocateSeat_effects(2)
      deallocateSeat_effects(2)
    by blast
qed

theorem checkAvailability_in_flight_witness:
  "isLoading busyWorld \<and>
   checkAvailability (\<lambda>x. x) (1 / 2) (Responded 500 (Inl [])) exampleParams False busyWorld
     = (Inr None, busyWorld) \<and>
   \<not> isLoading idleWorld \<and>
   \<not> isLoading (snd (checkAvailability (\<lambda>x. x) (1 / 2) (Responded 500 (Inl []))
                       exampleParams False idleWorld)) \<and>
   fst (checkAvailability (\<lambda>x. x) (1 / 2) (Responded 500 (Inl [])) exampleParams False idleWorld)
     = Inl (Error ''HTTP 500: API request failed'') \<and>
   list_all snd (newEvents idleWorld
               (snd (checkAvailability (\<lambda>x. x) (1 / 2) (Responded 500 (Inl []))
                       exampleParams False idleWorld)))"
proof -
  note busy = checkAvailability_in_flight [of busyWorld "\<lambda>x. x" "1 / 2" "Responded 500 (Inl [])"
      exampleParams False]
  note idle = checkAvailability_in_flight [of idleWorld "\<lambda>x. x" "1 / 2" "Responded 500 (Inl [])"
      exampleParams False]
  from busy busyWorld_fields(1)
  have a: "checkAvailability (\<lambda>x. x) (1 / 2) (Responded 500 (Inl [])) exampleParams False busyWorld
     = (Inr None, busyWorld)" by blast
  from idle idleWorld_fields(2)
  have b: "\<not> isLoading (snd (checkAvailability (\<lambda>x. x) (1 / 2) (Responded 500 (Inl []))
                       exampleParams False idleWorld))"
    and c: "\<forall>e\<in>set (newEvents idleWorld
               (snd (checkAvailability (\<lambda>x. x) (1 / 2) (Responded 500 (Inl []))
                       exampleParams False idleWorld))). snd e" by blast+
  have d: "fst (checkAvailability (\<lambda>x. x) (1 / 2) (Responded 500 (Inl [])) exampleParams False
                  idleWorld) = Inl (Error ''HTTP 500: API request failed'')"
    by code_simp
  from c have c': "list_all snd (newEvents idleWorld
               (snd (checkAvailability (\<lambda>x. x) (1 / 2) (Responded 500 (Inl []))
                       exampleParams False idleWorld)))"
    by (simp add: list_all_iff)
  show ?thesis
    by (intro conjI a b c' d busyWorld_fields(1) idleWorld_fields(2))
qed

text \<open>
  C3 as stated fails: a seat-map call made while the in-flight flag is set sends its
  request and returns the seat map, not the busy value.
\<close>

theorem checkSeatMap_while_busy:
  "isLoading busyWorld \<and>
   fst (checkSeatMap seatMapOk 7 796 98 busyWorld) = Some \<lparr>smd_seatMaps = Some exampleSeatMaps\<rparr> \<and>
   newEvents busyWorld (snd (checkSeatMap seatMapOk 7 796 98 busyWorld)) =
     [(Fetch (SeatMapRequest 796 98 7), True)]"
  by (simp add: checkSeatMap_def seatMapOk_def ok_def emit_def newEvents_def busyWorld_fields)

section \<open>Allocation tracker\<close>

lemma releaseSeat_empty:
  assumes "allocatedSeat w = None"
  shows "releaseSeat reply w = (Inr (failure ''Tutulmus koltuk bulunamadi''), w)"
  using assms by (simp add: releaseSeat_def)

lemma releaseSeat_ok:
  assumes "allocatedSeat w = Some held" and "reply = Responded status body" and "ok status"
  shows "fst (releaseSeat reply w) =
           Inr \<lparr>success = True, message = ''Koltuk basariyla serbest birakildi'',
                seatInfo = None\<rparr>"
    and "allocatedSeat (snd (releaseSeat reply w)) = None"
  using assms by (simp_all add: releaseSeat_def deallocateSeat_def Let_def)

lemma releaseSeat_failed:
  assumes "allocatedSeat w = Some held"
    and "reply = Rejected m \<or> (reply = Responded status body \<and> \<not> ok status)"
  shows "fst (releaseSeat reply w) =
           Inr (failure (''Hata: '' @ (case reply of
                                         Rejected m \<Rightarrow> m
                                       | Responded status body \<Rightarrow>
                                           errorMessage (httpError status
                                                           ''Deallocation request failed''))))"
    and "allocatedSeat (snd (releaseSeat reply w)) = Some held"
  using assms by (auto simp: releaseSeat_def deallocateSeat_def Let_def emit_def)

lemma releaseSeat_events:
  assumes "allocatedSeat w = Some held"
  shows "newEvents w (snd (releaseSeat reply w)) =
           [(Fetch (DeallocateRequest \<lparr>ad_trainCarId = al_trainCarId held,
                                        ad_allocationId = al_allocationId held,
                                        ad_seatNumber = al_seatNumber held\<rparr>), isLoading w)]"
  using assms
  by (intro newEvents_append)
     (simp add: releaseSeat_def deallocateSeat_def Let_def emit_def split: reply.splits)

lemma releaseSeat_returns: "\<exists>r. fst (releaseSeat reply w) = Inr r"
  by (simp add: releaseSeat_def deallocateSeat_def Let_def split: option.splits reply.splits)

text \<open>
  C4, as the code has it. With no allocation held, \<open>releaseSeat\<close> returns \<open>success = false\<close>
  and sends no request. With one held it sends the release request. When that request
  succeeds it clears the stored allocation and returns \<open>success = true\<close>. When the request
  fails, by a rejected fetch or a status that is not successful, \<open>deallocateSeat\<close> throws,
  \<open>releaseSeat\<close> catches the error and returns \<open>success = false\<close> with the error's message,
  and the stored allocation stays. \<open>releaseSeat\<close> itself never throws.
\<close>

theorem releaseSeat_outcomes:
  "(allocatedSeat w = None \<longrightarrow>
      releaseSeat reply w = (Inr (failure ''Tutulmus koltuk bulunamadi''), w)) \<and>
   (allocatedSeat w = Some held \<longrightarrow>
      newEvents w (snd (releaseSeat reply w)) =
        [(Fetch (DeallocateRequest \<lparr>ad_trainCarId = al_trainCarId held,
                                     ad_allocationId = al_allocationId held,
                                     ad_seatNumber = al_seatNumber held\<rparr>), isLoading w)]) \<and>
   (allocatedSeat w = Some held \<and> reply = Responded status body \<and> ok status \<longrightarrow>
      fst (releaseSeat reply w) =
        Inr \<lparr>success = True, message = ''Koltuk basariyla serbest birakildi'', seatInfo = None\<rparr> \<and>
      allocatedSeat (snd (releaseSeat reply w)) = None) \<and>
   (allocatedSeat w = Some held \<and>
    (reply = Rejected m \<or> (reply = Responded status body \<and> \<not> ok status)) \<longrightarrow>
      fst (releaseSeat reply w) =
        Inr (failure (''Hata: '' @ (case reply of
                                      Rejected m \<Rightarrow> m
                                    | Responded status body \<Rightarrow>
                                        errorMessage (httpError status
                                                        ''Deallocation request failed'')))) \<and>
      allocatedSeat (snd (releaseSeat reply w)) = Some held) \<and>
   (\<exists>r. fst (releaseSeat reply w) = Inr r)"
proof (intro conjI impI)
  assume "allocatedSeat w = None"
  then show "releaseSeat reply w = (Inr (failure ''Tutulmus koltuk bulunamadi''), w)"
    by (rule releaseSeat_empty)
next
  assume "allocatedSeat w = Some held"
  then show "newEvents w (snd (releaseSeat reply w)) =
        [(Fetch (DeallocateRequest \<lparr>ad_trainCarId = al_trainCarId held,
                                     ad_allocationId = al_allocationId held,
                                     ad_seatNumber = al_seatNumber held\<rparr>), isLoading w)]"
    by (rule releaseSeat_events)
next
  assume a: "allocatedSeat w = Some held \<and> reply = Responded status body \<and> ok status"
  then have h: "allocatedSeat w = Some held" "reply = Responded status body" "ok status"
    by simp_all
  show "fst (releaseSeat reply w) =
        Inr \<lparr>success = True, message = ''Koltuk basariyla serbest birakildi'', seatInfo = None\<rparr>"
    by (rule releaseSeat_ok(1) [OF h])
  show "allocatedSeat (snd (releaseSeat reply w)) = None"
    by (rule releaseSeat_ok(2) [OF h])
next
  assume a: "allocatedSeat w = Some held \<and>
    (reply = Rejected m \<or> (reply = Responded status body \<and> \<not> ok status))"
  then have h: "allocatedSeat w = Some held"
    "reply = Rejected m \<or> (reply = Responded status body \<and> \<not> ok status)"
    by simp_all
  show "fst (releaseSeat reply w) =
        Inr (failure (''Hata: '' @ (case reply of
                                      Rejected m \<Rightarrow> m
                                    | Responded status body \<Rightarrow>
                                        errorMessage (httpError status
                                                        ''Deallocation request failed''))))"
    by (rule releaseSeat_failed(1) [OF h])
  show "allocatedSeat (snd (releaseSeat reply w)) = Some held"
    by (rule releaseSeat_failed(2) [OF h])
next
  show "\<exists>r. fst (releaseSeat reply w) = Inr r" by (rule releaseSeat_returns)
qed

theorem releaseSeat_outcomes_witness:
  "allocatedSeat idleWorld = None \<and>
   releaseSeat (Responded 200 (Inr ())) idleWorld
     = (Inr (failure ''Tutulmus koltuk bulunamadi''), idleWorld) \<and>
   allocatedSeat heldWorld = Some exampleAllocation \<and> ok 200 \<and>
   allocatedSeat (snd (releaseSeat (Responded 200 (Inr ())) heldWorld)) = None \<and>
   \<not> ok 500 \<and>
   allocatedSeat (snd (releaseSeat (Responded 500 (Inl [])) heldWorld)) = Some exampleAllocation \<and>
   allocatedSeat (snd (releaseSeat (Rejected ''Failed to fetch'') heldWorld))
     = Some exampleAllocation \<and>
   fst (releaseSeat (Rejected ''Failed to fetch'') heldWorld)
     = Inr (failure ''Hata: Failed to fetch'')"
proof -
  have ok: "ok 200" and nok: "\<not> ok 500" by (simp_all add: ok_def)
  note empty = releaseSeat_outcomes [of idleWorld "Responded 200 (Inr ())"]
  note good = releaseSeat_outcomes [of heldWorld "Responded 200 (Inr ())" exampleAllocation
      200 "Inr ()"]
  note bad = releaseSeat_outcomes [of heldWorld "Responded 500 (Inl [])" exampleAllocation
      500 "Inl []"]
  note rej = releaseSeat_outcomes [of heldWorld "Rejected ''Failed to fetch''" exampleAllocation
      _ _ "''Failed to fetch''"]
  have a: "releaseSeat (Responded 200 (Inr ())) idleWorld
     = (Inr (failure ''Tutulmus koltuk bulunamadi''), idleWorld)"
    by (rule mp [OF conjunct1 [OF empty] idleWorld_fields(3)])
  have b: "allocatedSeat (snd (releaseSeat (Responded 200 (Inr ())) heldWorld)) = None"
    using good heldWorld_fields(3) ok by simp
  have c: "allocatedSeat (snd (releaseSeat (Responded 500 (Inl [])) heldWorld))
             = Some exampleAllocation"
    using bad heldWorld_fields(3) nok by simp
  have d: "allocatedSeat (snd (releaseSeat (Rejected ''Failed to fetch'') heldWorld))
             = Some exampleAllocation"
    using rej heldWorld_fields(3) by simp
  have e: "fst (releaseSeat (Rejected ''Failed to fetch'') heldWorld)
     = Inr (failure ''Hata: Failed to fetch'')"
    using rej heldWorld_fields(3) by simp
  show ?thesis
    by (intro conjI a b c d e ok nok idleWorld_fields(3) heldWorld_fields(3))
qed

text \<open>
  C4 as stated fails: when the release request is answered with status 500, the caller of
  \<open>releaseSeat\<close> gets a returned result, not a thrown error.
\<close>

theorem releaseSeat_failure_returned:
  "allocatedSeat heldWorld = Some exampleAllocation \<and>
   fst (releaseSeat (Responded 500 (Inl [])) heldWorld) =
     Inr \<lparr>success = False, message = ''Hata: HTTP 500: Deallocation request failed'',
          seatInfo = None\<rparr> \<and>
   allocatedSeat (snd (releaseSeat (Responded 500 (Inl [])) heldWorld)) = Some exampleAllocation"
  by code_simp

section \<open>Controller and allocation\<close>

lemma hasAllocatedSeat_frame:
  "hasAllocatedSeat (emit e w) = hasAllocatedSeat w"
  "hasAllocatedSeat (stopSearch w) = hasAllocatedSeat w"
  by (simp_all add: hasAllocatedSeat_def emit_fields stopSearch_fields)

lemma ticketsAvailable_held:
  assumes "hasAllocatedSeat w"
  shows "ticketsAvailable now seatMapReply allocateReply actual result params w =
           emit (AddLog ''Zaten tutulmus bir koltuk var.'')
             (emit PlayAlert
               (stopSearch
                 (emit (AddLog (''KOLTUK BULUNDU: '' @ showInt actual @ '' yer ('' @ now @ '')''))
                   (emit (UpdateStatus (''YER BULUNDU! '' @ showInt actual @ '' yer mevcut'')
                            ''found'') w))))"
  by (simp add: ticketsAvailable_def Let_def hasAllocatedSeat_frame assms)

lemma handleTicketsFound_held_allocation:
  assumes "hasAllocatedSeat w"
  shows "allocatedSeat (handleTicketsFound now seatMapReply allocateReply result params w)
           = allocatedSeat w"
  by (simp add: handleTicketsFound_def Let_def ticketsAvailable_held [OF assms]
        ticketsSoldOut_def emit_fields stopSearch_fields)

lemma handleTicketsFound_held_events:
  assumes "hasAllocatedSeat w"
  shows "\<exists>es. newEvents w (handleTicketsFound now seatMapReply allocateReply result params w) = es \<and>
           \<not> list_ex isFetch es \<and>
           (actualAvailableSeats (trains result) > 0 \<longrightarrow>
              (AddLog ''Zaten tutulmus bir koltuk var.'', isLoading w) \<in> set es)"
proof (cases "actualAvailableSeats (trains result) > 0")
  case True
  let ?a = "actualAvailableSeats (trains result)"
  have "trace (handleTicketsFound now seatMapReply allocateReply result params w) =
          trace w @
          ([(UpdateStatus (''YER BULUNDU! '' @ showInt ?a @ '' yer mevcut'') ''found'', isLoading w),
            (AddLog (''KOLTUK BULUNDU: '' @ showInt ?a @ '' yer ('' @ now @ '')''), isLoading w)] @
           (if isSearching w
            then [(SetSearchingState False, isLoading w), (StopMusic, isLoading w),
                  (UpdateStatus ''Arama durduruldu.'' ''waiting'', isLoading w)]
            else []) @
           [(PlayAlert, isLoading w),
            (AddLog ''Zaten tutulmus bir koltuk var.'', isLoading w),
            (DisplayResults (trains result), isLoading w)])"
    using True
    by (simp add: handleTicketsFound_def Let_def ticketsAvailable_held [OF assms]
          emit_fields stopSearch_fields stopSearch_trace)
  from newEvents_append [OF this] show ?thesis
    by (simp add: isFetch_def)
next
  case False
  have "trace (handleTicketsFound now seatMapReply allocateReply result params w) =
          trace w @
          [(UpdateStatus
              (showNat (length (trains result))
               @ '' sefer bulundu ancak sectiginiz siniflarda koltuk TUKENDI. Arama devam ediyor...'')
              ''searching'', isLoading w),
           (AddLog (showNat (length (trains result))
                    @ '' sefer var ama secili siniflarda tukendi ('' @ now @ '')''), isLoading w),
           (DisplayResults (trains result), isLoading w)]"
    using False
    by (simp add: handleTicketsFound_def Let_def ticketsSoldOut_def emit_fields)
  from newEvents_append [OF this] show ?thesis
    using False by (simp add: isFetch_def)
qed

lemma checkAndAllocateFirstSeat_fetches:
  "\<exists>es. newEvents w (snd (checkAndAllocateFirstSeat seatMapReply allocateReply trainInfo
                               searchParams w)) =
          (Fetch (SeatMapRequest (departureStationId searchParams) (arrivalStationId searchParams)
                    (ti_trainId trainInfo)), isLoading w) # es"
proof -
  let ?w1 = "snd (checkSeatMap seatMapReply (ti_trainId trainInfo)
              (departureStationId searchParams) (arrivalStationId searchParams) w)"
  let ?e = "(Fetch (SeatMapRequest (departureStationId searchParams) (arrivalStationId searchParams)
                    (ti_trainId trainInfo)), isLoading w)"
  have t1: "trace ?w1 = trace w @ [?e]" by (rule checkSeatMap_effects(1))
  have "\<exists>es. trace (snd (checkAndAllocateFirstSeat seatMapReply allocateReply trainInfo
                             searchParams w)) = trace ?w1 @ es"
    by (auto simp: checkAndAllocateFirstSeat_def Let_def allocateSeat_def emit_def
          split: prod.splits option.splits)
  then obtain es where "trace (snd (checkAndAllocateFirstSeat seatMapReply allocateReply trainInfo
                             searchParams w)) = trace w @ (?e # es)"
    using t1 by auto
  from newEvents_append [OF this] show ?thesis by blast
qed

text \<open>
  C2, as the code has it. The check for a held allocation is in \<open>handleTicketsFound\<close>, the
  caller: when an allocation is held it does not call \<open>checkAndAllocateFirstSeat\<close>, leaves
  the stored allocation as it is, sends no request, and, when it reports found tickets,
  logs that a seat is already held. \<open>checkAndAllocateFirstSeat\<close> itself makes no such
  check: it always sends the seat-map request.
\<close>

theorem handleTicketsFound_guards_allocation:
  "(hasAllocatedSeat w \<longrightarrow>
      allocatedSeat (handleTicketsFound now seatMapReply allocateReply result params w)
        = allocatedSeat w \<and>
      \<not> list_ex isFetch
          (newEvents w (handleTicketsFound now seatMapReply allocateReply result params w)) \<and>
      (actualAvailableSeats (trains result) > 0 \<longrightarrow>
         (AddLog ''Zaten tutulmus bir koltuk var.'', isLoading w)
           \<in> set (newEvents w
                    (handleTicketsFound now seatMapReply allocateReply result params w)))) \<and>
   list_ex isFetch
     (newEvents w (snd (checkAndAllocateFirstSeat seatMapReply allocateReply trainInfo params w)))"
proof (intro conjI impI)
  assume h: "hasAllocatedSeat w"
  show "allocatedSeat (handleTicketsFound now seatMapReply allocateReply result params w)
        = allocatedSeat w"
    by (rule handleTicketsFound_held_allocation [OF h])
  from handleTicketsFound_held_events [OF h, of now seatMapReply allocateReply result params]
  show "\<not> list_ex isFetch
          (newEvents w (handleTicketsFound now seatMapReply allocateReply result params w))"
    by simp
  assume "actualAvailableSeats (trains result) > 0"
  with handleTicketsFound_held_events [OF h, of now seatMapReply allocateReply result params]
  show "(AddLog ''Zaten tutulmus bir koltuk var.'', isLoading w)
           \<in> set (newEvents w
                    (handleTicketsFound now seatMapReply allocateReply result params w))"
    by simp
next
  from checkAndAllocateFirstSeat_fetches [of w seatMapReply allocateReply trainInfo params]
  obtain es where "newEvents w (snd (checkAndAllocateFirstSeat seatMapReply allocateReply trainInfo
                               params w)) =
          (Fetch (SeatMapRequest (departureStationId params) (arrivalStationId params)
                    (ti_trainId trainInfo)), isLoading w) # es" by auto
  then show "list_ex isFetch
     (newEvents w (snd (checkAndAllocateFirstSeat seatMapReply allocateReply trainInfo params w)))"
    by (simp add: isFetch_def)
qed

theorem handleTicketsFound_guards_allocation_witness:
  "hasAllocatedSeat heldWorld \<and>
   allocatedSeat (handleTicketsFound ''10:00:00'' seatMapOk allocateOk exampleResult exampleParams
                    heldWorld) = Some exampleAllocation \<and>
   \<not> list_ex isFetch
       (newEvents heldWorld
          (handleTicketsFound ''10:00:00'' seatMapOk allocateOk exampleResult exampleParams
             heldWorld))"
proof -
  have h: "hasAllocatedSeat heldWorld"
    by (simp add: hasAllocatedSeat_def heldWorld_fields)
  note inst = handleTicketsFound_guards_allocation [of heldWorld "''10:00:00''" seatMapOk
      allocateOk exampleResult exampleParams exampleTrainInfo]
  have a: "allocatedSeat (handleTicketsFound ''10:00:00'' seatMapOk allocateOk exampleResult
                            exampleParams heldWorld) = Some exampleAllocation"
    using inst h heldWorld_fields(3) by simp
  have b: "\<not> list_ex isFetch
       (newEvents heldWorld
          (handleTicketsFound ''10:00:00'' seatMapOk allocateOk exampleResult exampleParams
             heldWorld))"
    using inst h by simp
  show ?thesis by (intro conjI h a b)
qed

text \<open>
  C2 as stated fails: called while an allocation is held, with a seat map that has a free
  Economy seat and a successful select-seat reply, \<open>checkAndAllocateFirstSeat\<close> sends both
  requests, returns \<open>success = true\<close> and replaces the stored allocation.
\<close>

theorem checkAndAllocateFirstSeat_while_held:
  "allocatedSeat heldWorld = Some exampleAllocation \<and>
   success (fst (checkAndAllocateFirstSeat seatMapOk allocateOk exampleTrainInfo exampleParams
                   heldWorld)) \<and>
   map fst (newEvents heldWorld
              (snd (checkAndAllocateFirstSeat seatMapOk allocateOk exampleTrainInfo exampleParams
                      heldWorld))) =
     [Fetch (SeatMapRequest 796 98 7),
      Fetch (AllocateRequest
               \<lparr>sd_trainCarId = 31, sd_fromStationId = 796, sd_toStationId = 98,
                sd_gender = ''M'', sd_seatNumber = ''5B'', sd_passengerTypeId = 0,
                sd_totalPassengerCount = 1, sd_fareFamilyId = 0\<rparr>)] \<and>
   allocatedSeat (snd (checkAndAllocateFirstSeat seatMapOk allocateOk exampleTrainInfo
                         exampleParams heldWorld)) =
     Some \<lparr>al_trainName = Some ''YHT'', al_trainId = 7, al_departureTime = ''09:15'',
           al_arrivalTime = ''11:05'', al_seatNumber = ''5B'', al_trainCarId = 31,
           al_carName = Some ''CAF'', al_wagonNumber = ''2'',
           al_cabinClassName = ''Ekonomi Sinifi'', al_allocationId = 99, al_lockFor = 10\<rparr>"
  by code_simp

section \<open>Date conversion\<close>

lemma split_on_no_sep: "c \<notin> set p \<Longrightarrow> split_on c p = [p]"
  by (induction p) auto

lemma split_on_append: "c \<notin> set p \<Longrightarrow> split_on c (p @ c # rest) = p # split_on c rest"
  by (induction p) auto

lemma split_on_three:
  assumes "c \<notin> set p" "c \<notin> set q" "c \<notin> set r"
  shows "split_on c (p @ c # q @ c # r) = [p, q, r]"
  using assms by (simp add: split_on_append split_on_no_sep)

lemma isDigit_not_dash: "list_all isDigit p \<Longrightarrow> CHR ''-'' \<notin> set p"
proof
  assume all: "list_all isDigit p" and mem: "CHR ''-'' \<in> set p"
  then have "isDigit CHR ''-''" by (simp add: list_all_iff)
  then show False by (simp add: isDigit_def)
qed

lemma wellFormedDate_parts:
  assumes "wellFormedDate s"
  shows "s = take 4 s @ CHR ''-'' # take 2 (drop 5 s) @ CHR ''-'' # drop 8 s"
proof -
  from assms have len: "length s = 10" and d4: "s ! 4 = CHR ''-''" and d7: "s ! 7 = CHR ''-''"
    by (simp_all add: wellFormedDate_def)
  have b: "drop 4 s = s ! 4 # drop 5 s"
    using len Cons_nth_drop_Suc[of 4 s] by simp
  have c: "drop 5 s = take 2 (drop 5 s) @ drop 7 s"
    using append_take_drop_id[of 2 "drop 5 s"] by simp
  have d: "drop 7 s = s ! 7 # drop 8 s"
    using len Cons_nth_drop_Suc[of 7 s] by simp
  have "s = take 4 s @ drop 4 s" by simp
  also have "\<dots> = take 4 s @ CHR ''-'' # drop 5 s" using b d4 by simp
  also have "\<dots> = take 4 s @ CHR ''-'' # take 2 (drop 5 s) @ drop 7 s" using c by simp
  also have "\<dots> = take 4 s @ CHR ''-'' # take 2 (drop 5 s) @ CHR ''-'' # drop 8 s"
    using d d7 by simp
  finally show ?thesis .
qed

lemma convertDateToAPI_parts:
  assumes "CHR ''-'' \<notin> set y" "CHR ''-'' \<notin> set m" "CHR ''-'' \<notin> set d"
  shows "convertDateToAPI (y @ CHR ''-'' # m @ CHR ''-'' # d) = d @ CHR ''-'' # m @ CHR ''-'' # y"
  using assms by (simp add: convertDateToAPI_def split_on_three destructure_def)

lemma convertDateFromAPI_parts:
  assumes "CHR ''-'' \<notin> set y" "CHR ''-'' \<notin> set m" "CHR ''-'' \<notin> set d"
  shows "convertDateFromAPI (d @ CHR ''-'' # m @ CHR ''-'' # y) = y @ CHR ''-'' # m @ CHR ''-'' # d"
  using assms by (simp add: convertDateFromAPI_def split_on_three destructure_def)

text \<open>
  C9. A well-formed \<open>YYYY-MM-DD\<close> string is converted to \<open>DD-MM-YYYY\<close>, converting the
  result back gives the original string, both conversions map the empty string to the empty
  string, and \<open>2025-03-05\<close> becomes \<open>05-03-2025\<close>.
\<close>

theorem convertDate_roundtrip:
  "(wellFormedDate s \<longrightarrow>
      convertDateToAPI s = drop 8 s @ ''-'' @ take 2 (drop 5 s) @ ''-'' @ take 4 s \<and>
      convertDateFromAPI (convertDateToAPI s) = s) \<and>
   convertDateToAPI [] = [] \<and> convertDateFromAPI [] = [] \<and>
   convertDateToAPI ''2025-03-05'' = ''05-03-2025'' \<and>
   convertDateFromAPI ''05-03-2025'' = ''2025-03-05''"
proof -
  have ex: "convertDateToAPI ''2025-03-05'' = ''05-03-2025''"
    by (simp add: convertDateToAPI_def destructure_def)
  have ex': "convertDateFromAPI ''05-03-2025'' = ''2025-03-05''"
    by (simp add: convertDateFromAPI_def destructure_def)
  have gen: "convertDateToAPI s = drop 8 s @ ''-'' @ take 2 (drop 5 s) @ ''-'' @ take 4 s \<and>
      convertDateFromAPI (convertDateToAPI s) = s" if wf: "wellFormedDate s"
  proof -
    let ?y = "take 4 s" and ?m = "take 2 (drop 5 s)" and ?d = "drop 8 s"
    from wf have nd: "CHR ''-'' \<notin> set ?y" "CHR ''-'' \<notin> set ?m" "CHR ''-'' \<notin> set ?d"
      by (simp_all add: wellFormedDate_def isDigit_not_dash)
    have s: "s = ?y @ CHR ''-'' # ?m @ CHR ''-'' # ?d"
      by (rule wellFormedDate_parts [OF wf])
    have to: "convertDateToAPI s = ?d @ CHR ''-'' # ?m @ CHR ''-'' # ?y"
      by (rule trans [OF arg_cong [OF s, of convertDateToAPI] convertDateToAPI_parts [OF nd]])
    have "convertDateFromAPI (convertDateToAPI s) =
            convertDateFromAPI (?d @ CHR ''-'' # ?m @ CHR ''-'' # ?y)"
      by (rule arg_cong [OF to, of convertDateFromAPI])
    also have "\<dots> = ?y @ CHR ''-'' # ?m @ CHR ''-'' # ?d"
      by (rule convertDateFromAPI_parts [OF nd])
    also have "\<dots> = s"
      by (rule s [symmetric])
    finally have rt: "convertDateFromAPI (convertDateToAPI s) = s" .
    have "convertDateToAPI s = ?d @ ''-'' @ ?m @ ''-'' @ ?y"
      using to by simp
    then show ?thesis using rt by (rule conjI)
  qed
  have e: "convertDateToAPI [] = []" and e': "convertDateFromAPI [] = []"
    by (simp_all add: convertDateToAPI_def convertDateFromAPI_def)
  show ?thesis using gen ex ex' e e' by blast
qed


theorem convertDate_roundtrip_witness:
  "wellFormedDate ''2024-12-31'' \<and> convertDateToAPI ''2024-12-31'' = ''31-12-2024'' \<and>
   convertDateFromAPI (convertDateToAPI ''2024-12-31'') = ''2024-12-31''"
proof -
  have wf: "wellFormedDate ''2024-12-31''"
    by (simp add: wellFormedDate_def isDigit_def)
  have "wellFormedDate ''2024-12-31'' \<longrightarrow>
      convertDateToAPI ''2024-12-31'' =
        drop 8 ''2024-12-31'' @ ''-'' @ take 2 (drop 5 ''2024-12-31'') @ ''-'' @ take 4 ''2024-12-31'' \<and>
      convertDateFromAPI (convertDateToAPI ''2024-12-31'') = ''2024-12-31''"
    by (rule conjunct1 [OF convertDate_roundtrip [of "''2024-12-31''"]])
  then have ab: "convertDateToAPI ''2024-12-31'' =
        drop 8 ''2024-12-31'' @ ''-'' @ take 2 (drop 5 ''2024-12-31'') @ ''-'' @ take 4 ''2024-12-31'' \<and>
      convertDateFromAPI (convertDateToAPI ''2024-12-31'') = ''2024-12-31''"
    using wf by (rule mp)
  have c: "drop 8 ''2024-12-31'' @ ''-'' @ take 2 (drop 5 ''2024-12-31'') @ ''-'' @ take 4 ''2024-12-31''
           = ''31-12-2024''"
    by simp
  have a: "convertDateToAPI ''2024-12-31'' = ''31-12-2024''"
    by (rule trans [OF conjunct1 [OF ab] c])
  show ?thesis
    by (intro conjI wf a conjunct2 [OF ab])
qed

end
